theory Spec2Isabelle
  imports Complex_Main
begin

section \<open>Python values and the operations the controllers use on them\<close>

text \<open>
  The AERIS node server is two Python files: \<^verbatim>\<open>src/aeris.py\<close> (the Polyglot v2
  controller, called the legacy controller below) and \<^verbatim>\<open>src/nodes/aeris.py\<close> (the
  Polyglot v3 controller). Both decode provider responses with the \<^verbatim>\<open>json\<close>
  module and walk the resulting dictionaries and lists.

  A decoded JSON document is a value of type \<open>json\<close>. An object is the list of its
  items with distinct keys, in document order. Python floats and ints are modelled as
  reals: rounding, infinities and NaN are outside this model.
\<close>

datatype json =
    JNull
  | JBool bool
  | JNum real
  | JStr string
  | JArr "json list"
  | JObj "(string \<times> json) list"

text \<open>The exceptions the modelled code can raise.\<close>

datatype error =
    KeyError
  | TypeError
  | ValueError
  | IndexError
  | AttributeError
  | ZeroDivisionError
  | HTTPError
  | HostError

text \<open>Sequencing of fallible steps: the first exception ends the sequence.\<close>

definition bindE :: "error + 'a \<Rightarrow> ('a \<Rightarrow> error + 'b) \<Rightarrow> error + 'b" where
  "bindE m f = (case m of Inl e \<Rightarrow> Inl e | Inr v \<Rightarrow> f v)"

text \<open>\<^verbatim>\<open>s.split(c)\<close> with an explicit one-character separator: always at least one piece.\<close>

fun split_on :: "char \<Rightarrow> string \<Rightarrow> string list" where
  "split_on c [] = [[]]"
| "split_on c (x # xs) =
     (if x = c then [] # split_on c xs
      else (case split_on c xs of
              [] \<Rightarrow> [[x]]
            | s # ss \<Rightarrow> (x # s) # ss))"

text \<open>\<^verbatim>\<open>sub in s\<close> on strings.\<close>

fun starts_with :: "string \<Rightarrow> string \<Rightarrow> bool" where
  "starts_with [] s = True"
| "starts_with (p # ps) [] = False"
| "starts_with (p # ps) (x # xs) = (p = x \<and> starts_with ps xs)"

fun contains :: "string \<Rightarrow> string \<Rightarrow> bool" where
  "contains sub [] = (sub = [])"
| "contains sub (x # xs) = (starts_with sub (x # xs) \<or> contains sub xs)"

text \<open>
  \<^verbatim>\<open>key in j\<close> for a string key: membership among the keys of a dictionary, among the
  elements of a list, substring test on a string; any other value is not iterable.
\<close>

fun py_in :: "string \<Rightarrow> json \<Rightarrow> error + bool" where
  "py_in k (JObj kvs) = Inr (map_of kvs k \<noteq> None)"
| "py_in k (JArr xs) = Inr (JStr k \<in> set xs)"
| "py_in k (JStr s) = Inr (contains k s)"
| "py_in k j = Inl TypeError"

text \<open>\<^verbatim>\<open>j[key]\<close> for a string key.\<close>

fun py_get :: "json \<Rightarrow> string \<Rightarrow> error + json" where
  "py_get (JObj kvs) k = (case map_of kvs k of None \<Rightarrow> Inl KeyError | Some v \<Rightarrow> Inr v)"
| "py_get j k = Inl TypeError"

text \<open>Indexing the list a \<^verbatim>\<open>split\<close> returned.\<close>

definition nth_seg :: "string list \<Rightarrow> nat \<Rightarrow> error + string" where
  "nth_seg segs i = (if i < length segs then Inr (segs ! i) else Inl IndexError)"

text \<open>
  The position that the integer index \<open>i\<close> selects in a sequence of \<open>len\<close> elements:
  an index from \<open>-len\<close> to \<open>-1\<close> counts from the end.
\<close>

definition position :: "nat \<Rightarrow> int \<Rightarrow> nat option" where
  "position len i =
     (if 0 \<le> i \<and> i < int len then Some (nat i)
      else if - int len \<le> i \<and> i < 0 then Some (nat (int len + i))
      else None)"

text \<open>\<^verbatim>\<open>j[i]\<close> for an integer index.\<close>

fun py_index :: "json \<Rightarrow> int \<Rightarrow> error + json" where
  "py_index (JArr xs) i =
     (case position (length xs) i of None \<Rightarrow> Inl IndexError | Some k \<Rightarrow> Inr (xs ! k))"
| "py_index (JStr s) i =
     (case position (length s) i of None \<Rightarrow> Inl IndexError | Some k \<Rightarrow> Inr (JStr [s ! k]))"
| "py_index (JObj kvs) i = Inl KeyError"
| "py_index j i = Inl TypeError"

text \<open>\<^verbatim>\<open>for x in j\<close>: the elements of a list, the keys of a dictionary, the characters of a string.\<close>

fun py_iter :: "json \<Rightarrow> error + json list" where
  "py_iter (JArr xs) = Inr xs"
| "py_iter (JObj kvs) = Inr (map (\<lambda>kv. JStr (fst kv)) kvs)"
| "py_iter (JStr s) = Inr (map (\<lambda>c. JStr [c]) s)"
| "py_iter j = Inl TypeError"

text \<open>\<^verbatim>\<open>j.split(c)\<close>: only a string has the method.\<close>

fun str_split :: "char \<Rightarrow> json \<Rightarrow> error + string list" where
  "str_split c (JStr s) = Inr (split_on c s)"
| "str_split c j = Inl AttributeError"

text \<open>\<^verbatim>\<open>'text' + j\<close>: concatenation to a string literal needs a string.\<close>

fun str_concat :: "json \<Rightarrow> error + string" where
  "str_concat (JStr s) = Inr s"
| "str_concat j = Inl TypeError"

text \<open>
  A forecast node is registered under the address \<^verbatim>\<open>'forecast_' + str(day)\<close>. The
  decimal rendering of an integer is injective, so the address is represented by its
  day index.
\<close>

datatype address = Forecast int

text \<open>
  What lies outside the two source files is a parameter of the model: the conversions
  of the Python runtime between strings and numbers, the three lookup tables of the
  module \<^verbatim>\<open>nodes/weather_codes.py\<close>, and whether the host fails to delete or to add
  a node.
\<close>

record env =
  float_of_str :: "string \<Rightarrow> real option"
  int_of_str :: "string \<Rightarrow> int option"
  str_of_float :: "real \<Rightarrow> string"
  coverage_codes :: "string \<Rightarrow> real"
  intensity_codes :: "string \<Rightarrow> real"
  weather_codes :: "string \<Rightarrow> real"
  delNode_fails :: "address \<Rightarrow> bool"
  addNode_fails :: "address \<Rightarrow> bool"

text \<open>\<^verbatim>\<open>float(j)\<close>.\<close>

fun py_float :: "env \<Rightarrow> json \<Rightarrow> error + real" where
  "py_float ev (JNum r) = Inr r"
| "py_float ev (JBool b) = Inr (if b then 1 else 0)"
| "py_float ev (JStr s) =
     (case float_of_str ev s of None \<Rightarrow> Inl ValueError | Some r \<Rightarrow> Inr r)"
| "py_float ev j = Inl TypeError"

text \<open>\<^verbatim>\<open>x / n\<close> on floats.\<close>

definition py_div :: "real \<Rightarrow> real \<Rightarrow> error + real" where
  "py_div x n = (if n = 0 then Inl ZeroDivisionError else Inr (x / n))"

subsection \<open>Statements\<close>

text \<open>
  A method body is a statement: a function from the state to the new state and the way
  the statement ended. The state reached when an exception is raised is kept, since
  writes made before the exception stay made.
\<close>

datatype outcome = Next | Returned | Raised error

type_synonym 's stmt = "'s \<Rightarrow> 's \<times> outcome"

definition raise :: "error \<Rightarrow> 's stmt" where
  "raise e s = (s, Raised e)"

definition skip :: "'s stmt" where
  "skip s = (s, Next)"

definition ret :: "'s stmt" where
  "ret s = (s, Returned)"

definition seq :: "'s stmt \<Rightarrow> 's stmt \<Rightarrow> 's stmt" where
  "seq a b s = (case a s of (s1, out) \<Rightarrow> if out = Next then b s1 else (s1, out))"

fun block :: "'s stmt list \<Rightarrow> 's stmt" where
  "block [] = skip"
| "block (a # as) = seq a (block as)"

text \<open>Evaluate an expression, then run the statement that uses its value.\<close>

definition expr :: "(error + 'a) \<Rightarrow> ('a \<Rightarrow> 's stmt) \<Rightarrow> 's stmt" where
  "expr x k s = (case x of Inl e \<Rightarrow> (s, Raised e) | Inr v \<Rightarrow> k v s)"

text \<open>An expression that reads the state.\<close>

definition expr_of :: "('s \<Rightarrow> error + 'a) \<Rightarrow> ('a \<Rightarrow> 's stmt) \<Rightarrow> 's stmt" where
  "expr_of x k s = expr (x s) k s"

definition assign :: "(error + 'a) \<Rightarrow> ('a \<Rightarrow> 's \<Rightarrow> 's) \<Rightarrow> 's stmt" where
  "assign x upd = expr x (\<lambda>v s. (upd v s, Next))"

definition modify :: "('s \<Rightarrow> 's) \<Rightarrow> 's stmt" where
  "modify upd s = (upd s, Next)"

definition cond :: "('s \<Rightarrow> bool) \<Rightarrow> 's stmt \<Rightarrow> 's stmt \<Rightarrow> 's stmt" where
  "cond b t e s = (if b s then t s else e s)"

text \<open>\<^verbatim>\<open>try: body except: handler\<close>; both forms of the source catch every exception.\<close>

definition try_except :: "'s stmt \<Rightarrow> 's stmt \<Rightarrow> 's stmt" where
  "try_except body handler s =
     (case body s of (s1, out) \<Rightarrow>
        (case out of Raised e \<Rightarrow> handler s1 | Next \<Rightarrow> (s1, Next) | Returned \<Rightarrow> (s1, Returned)))"

fun for_each :: "'a list \<Rightarrow> ('a \<Rightarrow> 's stmt) \<Rightarrow> 's stmt" where
  "for_each [] body = skip"
| "for_each (x # xs) body = seq (body x) (for_each xs body)"

text \<open>
  A method call: the state the body leaves, and the exception that escapes, if any.
\<close>

definition call :: "'s stmt \<Rightarrow> 's \<Rightarrow> 's \<times> error option" where
  "call body s =
     (case body s of (s1, out) \<Rightarrow>
        (s1, case out of Raised e \<Rightarrow> Some e | Next \<Rightarrow> None | Returned \<Rightarrow> None))"


section \<open>The legacy controller (\<^verbatim>\<open>src/aeris.py\<close>)\<close>

text \<open>
  The dictionary \<^verbatim>\<open>self.fcast\<close> that the forecast loop fills for one day. The
  day-start branch assigns every key before any of them is read, so the dictionary is a
  record of its ten values.
\<close>

record fcast =
  temp_max :: real
  temp_min :: real
  Hmax :: real
  Hmin :: real
  pressure :: real
  weather :: real
  speed :: real
  clouds :: real
  dt :: json
  uv :: json

text \<open>One call of \<^verbatim>\<open>update_forecast\<close> on a forecast node of the legacy controller.\<close>

record legacy_dispatch =
  ld_address :: address
  ld_fcast :: fcast
  ld_latitude :: real
  ld_elevation :: json
  ld_plant_type :: json
  ld_units :: string

text \<open>
  The fields of the legacy \<^verbatim>\<open>Controller\<close> that the poll operations read or write,
  the driver values held by the host, and two traces: the requests sent over HTTP and
  the forecast updates handed to the forecast nodes.
\<close>

record legacy =
  legacy_location :: string
  legacy_apikey :: string
  legacy_units :: string
  legacy_configured :: bool
  legacy_latitude :: real
  legacy_longitude :: real
  legacy_fcast :: fcast
  legacy_plant_type :: json
  legacy_elevation :: json
  legacy_uom :: "string \<rightharpoonup> int"
  legacy_nodes :: "address set"
  legacy_drivers :: "string \<rightharpoonup> real"
  legacy_requests :: "string list"
  legacy_dispatched :: "legacy_dispatch list"

text \<open>
  The HTTP layer is a function from the request to the decoded body, \<open>None\<close> when
  the request raises. In the legacy controller nothing catches that exception.
\<close>

definition legacy_fetch :: "(string \<Rightarrow> json option) \<Rightarrow> string \<Rightarrow> (json \<Rightarrow> ('a legacy_scheme) stmt) \<Rightarrow> ('a legacy_scheme) stmt" where
  "legacy_fetch http request k s =
     (let s1 = s\<lparr>legacy_requests := legacy_requests s @ [request]\<rparr> in
      case http request of
        None \<Rightarrow> (s1, Raised HTTPError)
      | Some jdata \<Rightarrow> k jdata s1)"

text \<open>
  \<^verbatim>\<open>update_driver(driver, value, uom)\<close>: the value is converted with \<^verbatim>\<open>float\<close> and
  stored; a value that does not convert is dropped and the driver keeps what it had.
\<close>

definition legacy_update_driver :: "env \<Rightarrow> string \<Rightarrow> json \<Rightarrow> int \<Rightarrow> ('a legacy_scheme) stmt" where
  "legacy_update_driver ev driver v u =
     try_except
       (expr (py_float ev v)
          (\<lambda>r. modify (\<lambda>s. s\<lparr>legacy_drivers := (legacy_drivers s)(driver \<mapsto> r)\<rparr>)))
       skip"

text \<open>
  The request of \<^verbatim>\<open>query_conditions\<close>. The two \<^verbatim>\<open>re.fullmatch\<close> tests select
  among three branches which all append the location.
\<close>

definition is_digit :: "char \<Rightarrow> bool" where
  "is_digit c = (c \<in> set ''0123456789'')"

definition zip_country :: "string \<Rightarrow> bool" where
  "zip_country s =
     (length s = 8 \<and> list_all is_digit (take 5 s) \<and> s ! 5 = CHR '','' \<and>
      s ! 6 \<noteq> CHR 0x0A \<and> s ! 7 \<noteq> CHR 0x0A)"

definition zip_only :: "string \<Rightarrow> bool" where
  "zip_only s = (length s = 5 \<and> list_all is_digit s)"

definition conditions_request :: "'a legacy_scheme \<Rightarrow> string" where
  "conditions_request s =
     (let request = ''http://api.aerisapi.com/observations/'';
          request = (if zip_country (legacy_location s) then request @ legacy_location s
                     else if zip_only (legacy_location s) then request @ legacy_location s
                     else request @ legacy_location s);
          request = request @ ''?client_id=JGlB9OD1KA1EvzoSkpBmJ'';
          request = request @ ''&client_secret=xiZGRDGO61ZP2YZH1YDwVB6tuDMX4Zx3o9yeXDyI''
      in request)"

text \<open>
  One line \<^verbatim>\<open>self.update_driver(driver, ob[key], self.uom[driver])\<close>: both
  subscripts are evaluated before the call, outside any \<^verbatim>\<open>try\<close>.
\<close>

definition legacy_update_from :: "env \<Rightarrow> json \<Rightarrow> string \<Rightarrow> string \<Rightarrow> ('a legacy_scheme) stmt" where
  "legacy_update_from ev ob driver key =
     expr (py_get ob key) (\<lambda>v.
     expr_of (\<lambda>s. case legacy_uom s driver of None \<Rightarrow> Inl KeyError | Some u \<Rightarrow> Inr u) (\<lambda>u.
     legacy_update_driver ev driver v u))"

definition legacy_query_conditions_body :: "env \<Rightarrow> (string \<Rightarrow> json option) \<Rightarrow> ('a legacy_scheme) stmt" where
  "legacy_query_conditions_body ev http =
     expr_of (\<lambda>s. Inr (conditions_request s)) (\<lambda>request.
     block [
       cond (\<lambda>s. \<not> legacy_configured s) ret skip,
       legacy_fetch http request (\<lambda>jdata.
       block [
         cond (\<lambda>s. jdata = JNull) ret skip,
         expr (py_in ''response'' jdata) (\<lambda>b. cond (\<lambda>s. \<not> b) ret skip),
         expr (py_get jdata ''response'') (\<lambda>response.
         block [
           expr (py_in ''ob'' response) (\<lambda>b. cond (\<lambda>s. \<not> b) ret skip),
           expr (py_get response ''ob'') (\<lambda>ob.
           block [
             legacy_update_from ev ob ''CLITEMP'' ''tempC'',
             legacy_update_from ev ob ''CLIHUM'' ''humidity'',
             legacy_update_from ev ob ''BARPRES'' ''pressureMB'',
             legacy_update_from ev ob ''GV4'' ''windSpeedKPH'',
             legacy_update_from ev ob ''WINDDIR'' ''windDirDEG'',
             legacy_update_from ev ob ''GV15'' ''visibilityKM'',
             legacy_update_from ev ob ''GV6'' ''precipMM''])])])])"

definition legacy_query_conditions :: "env \<Rightarrow> (string \<Rightarrow> json option) \<Rightarrow> legacy \<Rightarrow> legacy \<times> error option" where
  "legacy_query_conditions ev http = call (legacy_query_conditions_body ev http)"

subsection \<open>The forecast loop of the legacy controller\<close>

text \<open>
  The local variables of \<^verbatim>\<open>query_forecast\<close> that the loop assigns; \<open>lday\<close> is
  the variable \<^verbatim>\<open>day\<close>.
\<close>

record forecast_frame = legacy +
  lday :: int
  start :: bool
  count :: int

definition forecast_request :: "'a legacy_scheme \<Rightarrow> string" where
  "forecast_request s =
     (let request = ''http://api.openweathermap.org/data/2.5/forecast?'';
          request = (if zip_country (legacy_location s) then request @ ''zip='' @ legacy_location s
                     else if zip_only (legacy_location s) then request @ ''zip='' @ legacy_location s
                     else request @ legacy_location s);
          request = request @ ''&units='' @ legacy_units s;
          request = request @ ''&appid='' @ legacy_apikey s
      in request)"

definition uv_request :: "env \<Rightarrow> 'a legacy_scheme \<Rightarrow> string" where
  "uv_request ev s =
     (let request = ''http://api.openweathermap.org/data/2.5/uvi/forecast?'';
          request = request @ ''appid='' @ legacy_apikey s;
          request = request @ ''&lat='' @ str_of_float ev (legacy_latitude s);
          request = request @ ''&lon='' @ str_of_float ev (legacy_longitude s)
      in request)"

text \<open>\<^verbatim>\<open>float(forecast[grp][key])\<close>.\<close>

definition float_at :: "env \<Rightarrow> json \<Rightarrow> string \<Rightarrow> string \<Rightarrow> error + real" where
  "float_at ev forecast grp key =
     bindE (py_get forecast grp) (\<lambda>g. bindE (py_get g key) (py_float ev))"

text \<open>\<^verbatim>\<open>float(forecast['weather'][0]['id'])\<close>.\<close>

definition weather_id :: "env \<Rightarrow> json \<Rightarrow> error + real" where
  "weather_id ev forecast =
     bindE (py_get forecast ''weather'') (\<lambda>w.
     bindE (py_index w 0) (\<lambda>w0.
     bindE (py_get w0 ''id'') (py_float ev)))"

text \<open>
  \<^verbatim>\<open>dt = forecast['dt_txt'].split(' ')\<close> followed by the log line that reads
  \<^verbatim>\<open>dt[0]\<close> and \<^verbatim>\<open>dt[1]\<close>; the value is \<^verbatim>\<open>dt[1]\<close>, the time of day.
\<close>

definition time_of :: "json \<Rightarrow> error + string" where
  "time_of forecast =
     bindE (py_get forecast ''dt_txt'') (\<lambda>t.
     bindE (str_split CHR '' '' t) (\<lambda>dt.
     bindE (nth_seg dt 0) (\<lambda>d0. nth_seg dt 1)))"

definition fc :: "('a legacy_scheme) \<Rightarrow> fcast" where
  "fc s = legacy_fcast s"

definition fc_upd :: "(fcast \<Rightarrow> fcast) \<Rightarrow> 'a legacy_scheme \<Rightarrow> 'a legacy_scheme" where
  "fc_upd f s = s\<lparr>legacy_fcast := f (legacy_fcast s)\<rparr>"

text \<open>The branch \<^verbatim>\<open>if dt[1] == '00:00:00'\<close>: initialise the values of the day.\<close>

definition init_day :: "env \<Rightarrow> json \<Rightarrow> json \<Rightarrow> ('a forecast_frame_scheme) stmt" where
  "init_day ev uv_data forecast =
     block [
       assign (float_at ev forecast ''main'' ''temp_max'') (\<lambda>r. fc_upd (\<lambda>f. f\<lparr>temp_max := r\<rparr>)),
       assign (float_at ev forecast ''main'' ''temp_min'') (\<lambda>r. fc_upd (\<lambda>f. f\<lparr>temp_min := r\<rparr>)),
       assign (float_at ev forecast ''main'' ''humidity'') (\<lambda>r. fc_upd (\<lambda>f. f\<lparr>Hmax := r\<rparr>)),
       assign (float_at ev forecast ''main'' ''humidity'') (\<lambda>r. fc_upd (\<lambda>f. f\<lparr>Hmin := r\<rparr>)),
       assign (float_at ev forecast ''main'' ''pressure'') (\<lambda>r. fc_upd (\<lambda>f. f\<lparr>pressure := r\<rparr>)),
       assign (weather_id ev forecast) (\<lambda>r. fc_upd (\<lambda>f. f\<lparr>weather := r\<rparr>)),
       assign (float_at ev forecast ''wind'' ''speed'') (\<lambda>r. fc_upd (\<lambda>f. f\<lparr>speed := r\<rparr>)),
       assign (float_at ev forecast ''clouds'' ''all'') (\<lambda>r. fc_upd (\<lambda>f. f\<lparr>clouds := r\<rparr>)),
       assign (py_get forecast ''dt'') (\<lambda>v. fc_upd (\<lambda>f. f\<lparr>dt := v\<rparr>)),
       modify (\<lambda>s. s\<lparr>start := True\<rparr>),
       modify (\<lambda>s. s\<lparr>count := 1\<rparr>),
       try_except
         (expr_of (\<lambda>s. bindE (py_index uv_data (lday s - 1)) (\<lambda>u. py_get u ''value''))
            (\<lambda>v. modify (fc_upd (\<lambda>f. f\<lparr>uv := v\<rparr>))))
         (modify (fc_upd (\<lambda>f. f\<lparr>uv := JNum 0\<rparr>)))]"

text \<open>The branch \<^verbatim>\<open>elif start\<close>: check for high and low, sum for the averages.\<close>

definition accumulate :: "env \<Rightarrow> json \<Rightarrow> ('a forecast_frame_scheme) stmt" where
  "accumulate ev forecast =
     block [
       expr (float_at ev forecast ''main'' ''temp_max'') (\<lambda>r.
         cond (\<lambda>s. r > temp_max (fc s))
           (assign (float_at ev forecast ''main'' ''temp_max'') (\<lambda>r. fc_upd (\<lambda>f. f\<lparr>temp_max := r\<rparr>)))
           skip),
       expr (float_at ev forecast ''main'' ''temp_min'') (\<lambda>r.
         cond (\<lambda>s. r < temp_min (fc s))
           (assign (float_at ev forecast ''main'' ''temp_min'') (\<lambda>r. fc_upd (\<lambda>f. f\<lparr>temp_min := r\<rparr>)))
           skip),
       expr (float_at ev forecast ''main'' ''humidity'') (\<lambda>r.
         cond (\<lambda>s. r > Hmax (fc s))
           (assign (float_at ev forecast ''main'' ''humidity'') (\<lambda>r. fc_upd (\<lambda>f. f\<lparr>Hmax := r\<rparr>)))
           skip),
       expr (float_at ev forecast ''main'' ''humidity'') (\<lambda>r.
         cond (\<lambda>s. r < Hmin (fc s))
           (assign (float_at ev forecast ''main'' ''humidity'') (\<lambda>r. fc_upd (\<lambda>f. f\<lparr>Hmin := r\<rparr>)))
           skip),
       assign (float_at ev forecast ''main'' ''pressure'') (\<lambda>r. fc_upd (\<lambda>f. f\<lparr>pressure := pressure f + r\<rparr>)),
       assign (float_at ev forecast ''wind'' ''speed'') (\<lambda>r. fc_upd (\<lambda>f. f\<lparr>speed := speed f + r\<rparr>)),
       assign (float_at ev forecast ''clouds'' ''all'') (\<lambda>r. fc_upd (\<lambda>f. f\<lparr>clouds := clouds f + r\<rparr>)),
       modify (\<lambda>s. s\<lparr>count := count s + 1\<rparr>)]"

text \<open>
  \<^verbatim>\<open>self.nodes[address].update_forecast(self.fcast, self.latitude, elevation, plant_type, self.units)\<close>
  with \<^verbatim>\<open>address = 'forecast_' + str(day)\<close>: the subscript raises when no node has
  the address; the call is recorded with the values it receives.
\<close>

definition legacy_update_forecast :: "json \<Rightarrow> json \<Rightarrow> ('a forecast_frame_scheme) stmt" where
  "legacy_update_forecast elevation plant_type s =
     (if Forecast (lday s) \<in> legacy_nodes s
      then (s\<lparr>legacy_dispatched := legacy_dispatched s @
              [\<lparr>ld_address = Forecast (lday s), ld_fcast = legacy_fcast s,
                ld_latitude = legacy_latitude s, ld_elevation = elevation,
                ld_plant_type = plant_type, ld_units = legacy_units s\<rparr>]\<rparr>, Next)
      else (s, Raised KeyError))"

text \<open>The branch \<^verbatim>\<open>if dt[1] == '21:00:00' and start\<close>: close the day.\<close>

definition close_day :: "('a forecast_frame_scheme) stmt" where
  "close_day =
     block [
       modify (fc_upd (\<lambda>f. f\<lparr>pressure := pressure f / 8\<rparr>)),
       modify (fc_upd (\<lambda>f. f\<lparr>speed := speed f / 8\<rparr>)),
       modify (fc_upd (\<lambda>f. f\<lparr>clouds := clouds f / 8\<rparr>)),
       expr_of (\<lambda>s. Inr (legacy_elevation s, legacy_plant_type s)) (\<lambda>(e, p).
         legacy_update_forecast e p),
       modify (\<lambda>s. s\<lparr>lday := lday s + 1\<rparr>),
       modify (\<lambda>s. s\<lparr>start := False\<rparr>),
       modify (\<lambda>s. s\<lparr>count := 0\<rparr>)]"

text \<open>The block \<^verbatim>\<open>if start\<close> after the loop: a partial day.\<close>

definition close_partial :: "('a forecast_frame_scheme) stmt" where
  "close_partial =
     block [
       expr_of (\<lambda>s. py_div (pressure (fc s)) (real_of_int (count s)))
         (\<lambda>r. modify (fc_upd (\<lambda>f. f\<lparr>pressure := r\<rparr>))),
       expr_of (\<lambda>s. py_div (speed (fc s)) (real_of_int (count s)))
         (\<lambda>r. modify (fc_upd (\<lambda>f. f\<lparr>speed := r\<rparr>))),
       expr_of (\<lambda>s. py_div (clouds (fc s)) (real_of_int (count s)))
         (\<lambda>r. modify (fc_upd (\<lambda>f. f\<lparr>clouds := r\<rparr>))),
       legacy_update_forecast (JNum 400) (JNum 0.23)]"

text \<open>The body of the loop for one three-hour record.\<close>

definition forecast_step :: "env \<Rightarrow> json \<Rightarrow> json \<Rightarrow> ('a forecast_frame_scheme) stmt" where
  "forecast_step ev uv_data forecast =
     expr (time_of forecast) (\<lambda>t.
     block [
       cond (\<lambda>s. t = ''00:00:00'')
         (init_day ev uv_data forecast)
         (cond (\<lambda>s. start s) (accumulate ev forecast) skip),
       cond (\<lambda>s. t = ''21:00:00'' \<and> start s) close_day skip])"

definition forecast_loop :: "env \<Rightarrow> json \<Rightarrow> json \<Rightarrow> ('a forecast_frame_scheme) stmt" where
  "forecast_loop ev uv_data jdata =
     expr (py_in ''list'' jdata) (\<lambda>b.
       cond (\<lambda>s. b)
         (expr (bindE (py_get jdata ''list'') py_iter) (\<lambda>records.
            block [
              for_each records (forecast_step ev uv_data),
              cond (\<lambda>s. start s) close_partial skip]))
         skip)"

text \<open>
  \<^verbatim>\<open>query_forecast\<close> of the legacy controller: the guard, the two requests, the loop
  with \<^verbatim>\<open>day = 1\<close>, \<^verbatim>\<open>start = False\<close>, \<^verbatim>\<open>count = 0\<close>.
\<close>

definition legacy_query_forecast_body :: "env \<Rightarrow> (string \<Rightarrow> json option) \<Rightarrow> forecast_frame stmt" where
  "legacy_query_forecast_body ev http =
     expr_of (\<lambda>s. Inr (forecast_request s)) (\<lambda>request.
     block [
       cond (\<lambda>s. \<not> legacy_configured s) ret skip,
       legacy_fetch http request (\<lambda>jdata.
       expr_of (\<lambda>s. Inr (uv_request ev s)) (\<lambda>request.
       legacy_fetch http request (\<lambda>uv_data.
       block [
         modify (\<lambda>s. s\<lparr>lday := 1\<rparr>),
         modify (\<lambda>s. s\<lparr>start := False\<rparr>),
         modify (\<lambda>s. s\<lparr>count := 0\<rparr>),
         forecast_loop ev uv_data jdata])))])"

definition legacy_query_forecast :: "env \<Rightarrow> (string \<Rightarrow> json option) \<Rightarrow> legacy \<Rightarrow> legacy \<times> error option" where
  "legacy_query_forecast ev http s =
     (case call (legacy_query_forecast_body ev http)
             (legacy.extend s \<lparr>lday = 1, start = False, count = 0\<rparr>) of
        (s1, e) \<Rightarrow> (legacy.truncate s1, e))"

section \<open>The controller (\<^verbatim>\<open>src/nodes/aeris.py\<close>)\<close>

text \<open>
  A custom parameter holds the string the user typed, or the integer that
  \<^verbatim>\<open>check_params\<close> stores when it limits the number of forecast days.
\<close>

datatype pval = PStr string | PInt int

fun pstr :: "pval \<Rightarrow> error + string" where
  "pstr (PStr s) = Inr s"
| "pstr (PInt i) = Inl TypeError"

text \<open>\<^verbatim>\<open>int(v)\<close> on a parameter value.\<close>

fun py_int :: "env \<Rightarrow> pval \<Rightarrow> error + int" where
  "py_int ev (PInt i) = Inr i"
| "py_int ev (PStr s) = (case int_of_str ev s of None \<Rightarrow> Inl ValueError | Some i \<Rightarrow> Inr i)"

text \<open>
  The object \<^verbatim>\<open>self.params\<close> is an \<^verbatim>\<open>NSParameters\<close> of the module
  \<^verbatim>\<open>node_funcs\<close>, which is not part of the sources at hand. Its state is what its
  methods \<^verbatim>\<open>get\<close> and \<^verbatim>\<open>isSet\<close> answer for each parameter name.
\<close>

record nsparams =
  get :: "string \<Rightarrow> pval"
  isSet :: "string \<Rightarrow> bool"

text \<open>
  Modelled from the spec: \<^verbatim>\<open>NSParameters.isConfigured\<close> is missing from the sources.
  The predicate is true iff every required parameter (ClientID, ClientSecret, Location)
  is neither empty nor its default \<^verbatim>\<open>'set me'\<close>, whatever the optional parameters hold.
\<close>

definition isConfigured :: "nsparams \<Rightarrow> bool" where
  "isConfigured p =
     list_all (\<lambda>name. get p name \<noteq> PStr [] \<and> get p name \<noteq> PStr ''set me'')
       [''ClientID'', ''ClientSecret'', ''Location'']"

text \<open>What the log receives where a claim speaks of it.\<close>

datatype event =
    FailedDelete address
  | FailedCreate address
  | LogError string

text \<open>One call of \<^verbatim>\<open>update_forecast\<close> on a forecast node.\<close>

record dispatch =
  d_address :: address
  d_forecast :: json
  d_latitude :: real
  d_elevation :: pval
  d_plant_type :: pval
  d_tag :: "string \<rightharpoonup> string"
  d_force :: bool

text \<open>
  The fields of the \<^verbatim>\<open>Controller\<close>, the nodes and driver values held by the host,
  and three traces: the requests sent over HTTP, the forecast updates handed to the
  forecast nodes, and the log.
\<close>

record controller =
  configured :: bool
  latitude :: real
  force :: bool
  tag :: "string \<rightharpoonup> string"
  params :: nsparams
  nodes :: "address set"
  drivers :: "string \<rightharpoonup> real"
  requests :: "string list"
  dispatched :: "dispatch list"
  logged :: "event list"

definition log_event :: "event \<Rightarrow> ('a controller_scheme) stmt" where
  "log_event e = modify (\<lambda>s. s\<lparr>logged := logged s @ [e]\<rparr>)"

definition param :: "'a controller_scheme \<Rightarrow> string \<Rightarrow> pval" where
  "param s name = get (params s) name"

text \<open>
  Modelled from the spec: \<^verbatim>\<open>update_driver(driver, value)\<close> comes from the module
  \<^verbatim>\<open>node_funcs\<close>, which is missing from the sources. The sink silently skips a value
  that fails numeric coercion and does not raise; a value that converts is stored. The
  legacy controller's own \<^verbatim>\<open>update_driver\<close> has this shape.
\<close>

definition update_driver :: "env \<Rightarrow> string \<Rightarrow> json \<Rightarrow> ('a controller_scheme) stmt" where
  "update_driver ev driver v =
     try_except
       (expr (py_float ev v)
          (\<lambda>r. modify (\<lambda>s. s\<lparr>drivers := (drivers s)(driver \<mapsto> r)\<rparr>)))
       skip"

text \<open>
  \<^verbatim>\<open>get_weather_data(extra)\<close>: the request is built outside the \<^verbatim>\<open>try\<close>, the
  transfer and the decoding inside it. The result is the decoded body, and
  \<^verbatim>\<open>None\<close> (here \<open>JNull\<close>) when the transfer or the decoding raised.
\<close>

definition weather_request :: "'a controller_scheme \<Rightarrow> string \<Rightarrow> error + string" where
  "weather_request s extra =
     bindE (Inr (''http://api.aerisapi.com/'' @ extra @ ''/'')) (\<lambda>request.
     bindE (pstr (param s ''Location'')) (\<lambda>location.
     bindE (pstr (param s ''ClientID'')) (\<lambda>client_id.
     bindE (pstr (param s ''ClientSecret'')) (\<lambda>client_secret.
     bindE (Inr (request @ location @ ''?client_id='' @ client_id @
                 ''&client_secret='' @ client_secret)) (\<lambda>request.
     bindE (if extra = ''forecasts''
            then bindE (pstr (param s ''Forecast Days'')) (\<lambda>days.
                   Inr (request @ ''&filter=mdnt2mdnt'' @ ''&precise'' @ ''&limit='' @ days))
            else Inr request) (\<lambda>request.
     Inr (if extra = ''observations/summary''
          then request @ ''&fields=periods.summary.precip''
          else request)))))))"

definition get_weather_data :: "(string \<Rightarrow> json option) \<Rightarrow> string \<Rightarrow> (json \<Rightarrow> ('a controller_scheme) stmt) \<Rightarrow> ('a controller_scheme) stmt" where
  "get_weather_data http extra k =
     expr_of (\<lambda>s. weather_request s extra) (\<lambda>request s.
       (let s1 = s\<lparr>requests := requests s @ [request]\<rparr> in
        case http request of
          None \<Rightarrow> k JNull s1
        | Some jdata \<Rightarrow> k jdata s1))"

text \<open>\<^verbatim>\<open>set_tags(units)\<close>: the provider key of each logical field.\<close>

definition metric_tags :: "(string \<times> string) list" where
  "metric_tags =
    [(''temperature'', ''tempC''),
     (''humidity'', ''humidity''),
     (''pressure'', ''pressureMB''),
     (''windspeed'', ''windSpeedKPH''),
     (''gustspeed'', ''windGustKPH''),
     (''winddir'', ''windDirDEG''),
     (''visibility'', ''visibilityKM''),
     (''precipitation'', ''precipMM''),
     (''snow'', ''snowDepthCM''),
     (''snowf'', ''snowCM''),
     (''dewpoint'', ''dewpointC''),
     (''heatindex'', ''heatindexC''),
     (''windchill'', ''windchillC''),
     (''feelslike'', ''feelslikeC''),
     (''solarrad'', ''solradWM2''),
     (''sky'', ''sky''),
     (''temp_min'', ''minTempC''),
     (''temp_max'', ''maxTempC''),
     (''humidity_min'', ''minHumidity''),
     (''humidity_max'', ''maxHumidity''),
     (''wind_min'', ''windSpeedMinKPH''),
     (''wind_max'', ''windSpeedMaxKPH''),
     (''winddir_min'', ''windDirMinDEG''),
     (''winddir_max'', ''windDirMaxDEG''),
     (''uv'', ''uvi''),
     (''pop'', ''pop''),
     (''timestamp'', ''timestamp''),
     (''precip_summary'', ''totalMM'')]"

definition imperial_tags :: "(string \<times> string) list" where
  "imperial_tags =
    [(''temperature'', ''tempF''),
     (''humidity'', ''humidity''),
     (''pressure'', ''pressureIN''),
     (''windspeed'', ''windSpeedMPH''),
     (''gustspeed'', ''windGustMPH''),
     (''winddir'', ''windDirDEG''),
     (''visibility'', ''visibilityMI''),
     (''precipitation'', ''precipIN''),
     (''snow'', ''snowDepthIN''),
     (''snowf'', ''snowIN''),
     (''dewpoint'', ''dewpointF''),
     (''heatindex'', ''heatindexF''),
     (''windchill'', ''windchillF''),
     (''feelslike'', ''feelslikeF''),
     (''solarrad'', ''solradWM2''),
     (''sky'', ''sky''),
     (''temp_min'', ''minTempF''),
     (''temp_max'', ''maxTempF''),
     (''humidity_min'', ''minHumidity''),
     (''humidity_max'', ''maxHumidity''),
     (''wind_min'', ''windSpeedMinMPH''),
     (''wind_max'', ''windSpeedMaxMPH''),
     (''winddir_min'', ''windDirMinDEG''),
     (''winddir_max'', ''windDirMaxDEG''),
     (''uv'', ''uvi''),
     (''pop'', ''pop''),
     (''timestamp'', ''timestamp''),
     (''precip_summary'', ''totalIN'')]"

definition set_tags :: "pval \<Rightarrow> ('a controller_scheme) stmt" where
  "set_tags units =
     modify (\<lambda>s. s\<lparr>tag := (tag s) ++
                      map_of (if units = PStr ''metric'' then metric_tags else imperial_tags)\<rparr>)"

text \<open>\<^verbatim>\<open>self.tag[name]\<close>.\<close>

definition tag_of :: "'a controller_scheme \<Rightarrow> string \<Rightarrow> error + string" where
  "tag_of s name = (case tag s name of None \<Rightarrow> Inl KeyError | Some key \<Rightarrow> Inr key)"

subsection \<open>\<^verbatim>\<open>query_conditions\<close>\<close>

text \<open>The local variable \<^verbatim>\<open>precipitation\<close>, assigned in the first block and read in the second.\<close>

record conditions_frame = controller +
  precipitation :: json

text \<open>One line \<^verbatim>\<open>self.update_driver(driver, ob[self.tag[name]])\<close>.\<close>

definition update_from :: "env \<Rightarrow> json \<Rightarrow> string \<times> string \<Rightarrow> ('a controller_scheme) stmt" where
  "update_from ev ob line =
     expr_of (\<lambda>s. bindE (tag_of s (snd line)) (py_get ob)) (\<lambda>v.
     update_driver ev (fst line) v)"

text \<open>The fourteen such lines of \<^verbatim>\<open>query_conditions\<close>, in source order: driver, logical field.\<close>

definition observation_fields :: "(string \<times> string) list" where
  "observation_fields =
    [(''CLITEMP'', ''temperature''),
     (''CLIHUM'', ''humidity''),
     (''BARPRES'', ''pressure''),
     (''SPEED'', ''windspeed''),
     (''GV5'', ''gustspeed''),
     (''WINDDIR'', ''winddir''),
     (''DISTANC'', ''visibility''),
     (''DEWPT'', ''dewpoint''),
     (''GV3'', ''heatindex''),
     (''GV4'', ''windchill''),
     (''GV2'', ''feelslike''),
     (''SOLRAD'', ''solarrad''),
     (''UV'', ''uv''),
     (''GV15'', ''snow'')]"

text \<open>\<^verbatim>\<open>ob['weatherCoded'].split(':')[i]\<close>.\<close>

definition coded_segment :: "json \<Rightarrow> nat \<Rightarrow> error + string" where
  "coded_segment ob i =
     bindE (py_get ob ''weatherCoded'') (\<lambda>w.
     bindE (str_split CHR '':'' w) (\<lambda>segs. nth_seg segs i))"

text \<open>The lines that decode the coded weather, set the cloud cover and read the precipitation.\<close>

definition coded_weather :: "env \<Rightarrow> json \<Rightarrow> ('a controller_scheme) stmt" where
  "coded_weather ev ob =
     block [
       expr (bindE (py_get ob ''weatherCoded'') str_concat) (\<lambda>text. skip),
       expr (coded_segment ob 0) (\<lambda>weather.
         update_driver ev ''GV11'' (JNum (coverage_codes ev weather))),
       expr (coded_segment ob 1) (\<lambda>weather.
         update_driver ev ''GV12'' (JNum (intensity_codes ev weather))),
       expr (coded_segment ob 2) (\<lambda>weather.
         update_driver ev ''GV13'' (JNum (weather_codes ev weather)))]"

text \<open>The caching of the latitude, when the response carries a location.\<close>

definition capture_latitude :: "env \<Rightarrow> json \<Rightarrow> ('a controller_scheme) stmt" where
  "capture_latitude ev response =
     expr (py_in ''loc'' response) (\<lambda>has_loc.
       cond (\<lambda>s. has_loc)
         (expr (bindE (py_get response ''loc'') (py_in ''lat'')) (\<lambda>has_lat.
            cond (\<lambda>s. has_lat)
              (expr (bindE (py_get response ''loc'') (\<lambda>loc.
                     bindE (py_get loc ''lat'') (py_float ev)))
                 (\<lambda>r. modify (\<lambda>s. s\<lparr>latitude := r\<rparr>)))
              (log_event (LogError ''No latitude data in response.''))))
         (log_event (LogError ''No location data in response.'')))"

text \<open>The statements from \<^verbatim>\<open>ob = jdata['response']['ob']\<close> to the end of the first \<^verbatim>\<open>try\<close>.\<close>

definition extract_observation :: "env \<Rightarrow> json \<Rightarrow> conditions_frame stmt" where
  "extract_observation ev ob =
     block [
       for_each observation_fields (update_from ev ob),
       coded_weather ev ob,
       expr (py_get ob ''sky'') (\<lambda>v. update_driver ev ''GV14'' v),
       expr_of (\<lambda>s. bindE (tag_of s ''precipitation'') (py_get ob))
         (\<lambda>v. modify (\<lambda>s. s\<lparr>precipitation := v\<rparr>))]"

text \<open>The first \<^verbatim>\<open>try\<close> block with its handler.\<close>

definition observation_block :: "env \<Rightarrow> (string \<Rightarrow> json option) \<Rightarrow> conditions_frame stmt" where
  "observation_block ev http =
     try_except
       (get_weather_data http ''observations'' (\<lambda>jdata.
        block [
          cond (\<lambda>s. jdata = JNull)
            (block [log_event (LogError ''Current condition query returned no data''), ret]) skip,
          expr (py_in ''response'' jdata) (\<lambda>b.
            cond (\<lambda>s. \<not> b)
              (block [log_event (LogError ''No response object in query response.''), ret]) skip),
          expr (py_get jdata ''response'') (\<lambda>response.
          block [
            expr (py_in ''ob'' response) (\<lambda>b.
              cond (\<lambda>s. \<not> b)
                (block [log_event (LogError ''No observation object in query response.''), ret]) skip),
            capture_latitude ev response,
            expr (py_get response ''ob'') (extract_observation ev)])]))
       (log_event (LogError ''Current observation update failure''))"

text \<open>
  \<^verbatim>\<open>rd\<close>: the summary of the first period, under the first element of the response
  when the response is a list.
\<close>

definition summary_of :: "json \<Rightarrow> error + json" where
  "summary_of response =
     bindE (case response of JArr xs \<Rightarrow> py_index response 0 | _ \<Rightarrow> Inr response) (\<lambda>r.
     bindE (py_get r ''periods'') (\<lambda>periods.
     bindE (py_index periods 0) (\<lambda>p. py_get p ''summary'')))"

text \<open>The statements inside the second \<^verbatim>\<open>try\<close>.\<close>

definition summary_body :: "env \<Rightarrow> (string \<Rightarrow> json option) \<Rightarrow> conditions_frame stmt" where
  "summary_body ev http =
     get_weather_data http ''observations/summary'' (\<lambda>jdata.
     block [
       cond (\<lambda>s. jdata = JNull)
         (block [log_event (LogError ''Precipitation summary query returned no data''), ret]) skip,
       expr (py_in ''response'' jdata) (\<lambda>b.
         cond (\<lambda>s. \<not> b)
           (block [log_event (LogError ''No response object in query response.''), ret]) skip),
       expr (bindE (py_get jdata ''response'') summary_of) (\<lambda>rd.
       expr (py_in ''precip'' rd) (\<lambda>b.
         cond (\<lambda>s. b)
           (expr_of (\<lambda>s. bindE (py_get rd ''precip'') (\<lambda>precip.
                           bindE (tag_of s ''precip_summary'') (py_get precip)))
              (\<lambda>v. update_driver ev ''GV6'' v))
           skip))])"

text \<open>The second \<^verbatim>\<open>try\<close> block with its handler.\<close>

definition summary_block :: "env \<Rightarrow> (string \<Rightarrow> json option) \<Rightarrow> conditions_frame stmt" where
  "summary_block ev http =
     try_except
       (summary_body ev http)
       (block [
          log_event (LogError ''Precipitation summary update failure''),
          expr_of (\<lambda>s. Inr (precipitation s)) (\<lambda>v. update_driver ev ''GV6'' v)])"

definition query_conditions_body :: "env \<Rightarrow> (string \<Rightarrow> json option) \<Rightarrow> conditions_frame stmt" where
  "query_conditions_body ev http =
     block [
       cond (\<lambda>s. \<not> configured s) ret skip,
       modify (\<lambda>s. s\<lparr>precipitation := JNum 0\<rparr>),
       observation_block ev http,
       summary_block ev http]"

text \<open>
  A method of the controller: its body runs on the controller extended with the
  method's local variables, which are dropped when it ends.
\<close>

definition run_method :: "'l \<Rightarrow> (('l controller_scheme) stmt) \<Rightarrow> controller stmt" where
  "run_method locals body s =
     (case body (controller.extend s locals) of (s1, out) \<Rightarrow>
        (controller.truncate s1,
         case out of Raised e \<Rightarrow> Raised e | Next \<Rightarrow> Next | Returned \<Rightarrow> Next))"

definition query_conditions :: "env \<Rightarrow> (string \<Rightarrow> json option) \<Rightarrow> controller stmt" where
  "query_conditions ev http =
     run_method \<lparr>precipitation = JNum 0\<rparr> (query_conditions_body ev http)"

subsection \<open>\<^verbatim>\<open>query_forecast\<close>\<close>

text \<open>The local variable \<^verbatim>\<open>day\<close> of \<^verbatim>\<open>query_forecast\<close>.\<close>

record forecast_locals = controller +
  day :: int

text \<open>\<^verbatim>\<open>len(j)\<close>.\<close>

fun py_len :: "json \<Rightarrow> error + nat" where
  "py_len (JArr xs) = Inr (length xs)"
| "py_len (JObj kvs) = Inr (length kvs)"
| "py_len (JStr s) = Inr (length s)"
| "py_len j = Inl TypeError"

text \<open>
  \<^verbatim>\<open>self.nodes[address].update_forecast(forecast, self.latitude, ...)\<close> with
  \<^verbatim>\<open>address = 'forecast_' + str(day)\<close>: the subscript raises when no node has the
  address; the call is recorded with the values it receives.
\<close>

definition update_forecast :: "json \<Rightarrow> ('a forecast_locals_scheme) stmt" where
  "update_forecast forecast s =
     (if Forecast (day s) \<in> nodes s
      then (s\<lparr>dispatched := dispatched s @
              [\<lparr>d_address = Forecast (day s), d_forecast = forecast,
                d_latitude = latitude s, d_elevation = param s ''Elevation'',
                d_plant_type = param s ''Plant Type'', d_tag = tag s,
                d_force = force s\<rparr>]\<rparr>, Next)
      else (s, Raised KeyError))"

text \<open>The body of the loop over the periods.\<close>

definition forecast_period :: "env \<Rightarrow> json \<Rightarrow> ('a forecast_locals_scheme) stmt" where
  "forecast_period ev forecast =
     block [
       expr (bindE (py_get forecast ''dateTimeISO'') str_concat) (\<lambda>text. skip),
       update_forecast forecast,
       modify (\<lambda>s. s\<lparr>day := day s + 1\<rparr>),
       expr_of (\<lambda>s. py_int ev (param s ''Forecast Days'')) (\<lambda>n.
         cond (\<lambda>s. day s \<ge> n) ret skip)]"

text \<open>\<^verbatim>\<open>jdata['response'][0]\<close>.\<close>

definition first_response :: "json \<Rightarrow> error + json" where
  "first_response jdata = bindE (py_get jdata ''response'') (\<lambda>r. py_index r 0)"

definition query_forecast_body :: "env \<Rightarrow> (string \<Rightarrow> json option) \<Rightarrow> forecast_locals stmt" where
  "query_forecast_body ev http =
     block [
       cond (\<lambda>s. \<not> configured s) ret skip,
       try_except
         (get_weather_data http ''forecasts'' (\<lambda>jdata.
          block [
            cond (\<lambda>s. jdata = JNull)
              (block [log_event (LogError ''Current condition query returned no data''), ret]) skip,
            modify (\<lambda>s. s\<lparr>day := 0\<rparr>),
            expr (bindE (first_response jdata) (py_in ''periods'')) (\<lambda>b.
              cond (\<lambda>s. b)
                (expr (bindE (first_response jdata) (\<lambda>r. py_get r ''periods'')) (\<lambda>periods.
                 expr (py_len periods) (\<lambda>n.
                 expr (py_iter periods) (\<lambda>ps.
                 for_each ps (forecast_period ev)))))
                skip)]))
         (log_event (LogError ''Forecast data failure''))]"

definition query_forecast :: "env \<Rightarrow> (string \<Rightarrow> json option) \<Rightarrow> controller stmt" where
  "query_forecast ev http = run_method \<lparr>day = 0\<rparr> (query_forecast_body ev http)"

subsection \<open>\<^verbatim>\<open>discover\<close>, \<^verbatim>\<open>check_params\<close> and the two entry points that call them\<close>

text \<open>\<^verbatim>\<open>range(a, b)\<close>.\<close>

definition py_range :: "int \<Rightarrow> int \<Rightarrow> int list" where
  "py_range a b = [a..b - 1]"

text \<open>
  The host's \<^verbatim>\<open>delNode\<close> and \<^verbatim>\<open>addNode\<close>: the node leaves or joins the registry,
  unless the host fails, which raises.
\<close>

definition delNode :: "env \<Rightarrow> address \<Rightarrow> ('a controller_scheme) stmt" where
  "delNode ev a =
     cond (\<lambda>s. delNode_fails ev a) (raise HostError)
       (modify (\<lambda>s. s\<lparr>nodes := nodes s - {a}\<rparr>))"

definition addNode :: "env \<Rightarrow> address \<Rightarrow> ('a controller_scheme) stmt" where
  "addNode ev a =
     cond (\<lambda>s. addNode_fails ev a) (raise HostError)
       (modify (\<lambda>s. s\<lparr>nodes := insert a (nodes s)\<rparr>))"

text \<open>
  \<^verbatim>\<open>set_driver_uom(units)\<close>: the log line concatenates the units, then every forecast
  node below the configured number of days is looked up.
\<close>

definition set_driver_uom :: "env \<Rightarrow> pval \<Rightarrow> ('a controller_scheme) stmt" where
  "set_driver_uom ev units =
     block [
       expr (pstr units) (\<lambda>text. skip),
       expr_of (\<lambda>s. py_int ev (param s ''Forecast Days'')) (\<lambda>n.
         for_each (py_range 0 n) (\<lambda>d.
           cond (\<lambda>s. Forecast d \<in> nodes s) skip (raise KeyError)))]"

definition discover :: "env \<Rightarrow> ('a controller_scheme) stmt" where
  "discover ev =
     expr_of (\<lambda>s. py_int ev (param s ''Forecast Days'')) (\<lambda>num_days.
     block [
       cond (\<lambda>s. num_days < 7)
         (for_each (py_range num_days 7) (\<lambda>d.
            try_except (delNode ev (Forecast d)) (log_event (FailedDelete (Forecast d)))))
         skip,
       for_each (py_range 0 num_days) (\<lambda>d.
         try_except (addNode ev (Forecast d)) (log_event (FailedCreate (Forecast d)))),
       expr_of (\<lambda>s. Inr (param s ''Units'')) (set_driver_uom ev)])"

text \<open>
  \<^verbatim>\<open>self.params.set(name, value)\<close>, of the missing \<^verbatim>\<open>NSParameters\<close>: afterwards
  \<^verbatim>\<open>get(name)\<close> answers the value.
\<close>

definition params_set :: "string \<Rightarrow> pval \<Rightarrow> ('a controller_scheme) stmt" where
  "params_set name v =
     modify (\<lambda>s. s\<lparr>params := (params s)\<lparr>get := (get (params s))(name := v)\<rparr>\<rparr>)"

definition check_params :: "env \<Rightarrow> ('a controller_scheme) stmt" where
  "check_params ev =
     cond (\<lambda>s. isConfigured (params s))
       (block [
          modify (\<lambda>s. s\<lparr>configured := True\<rparr>),
          expr_of (\<lambda>s. py_int ev (param s ''Forecast Days'')) (\<lambda>n.
            cond (\<lambda>s. n > 6) (params_set ''Forecast Days'' (PInt 6)) skip)])
       skip"

definition start_body :: "env \<Rightarrow> (string \<Rightarrow> json option) \<Rightarrow> controller stmt" where
  "start_body ev http =
     block [
       check_params ev,
       expr_of (\<lambda>s. Inr (param s ''Units'')) set_tags,
       discover ev,
       cond (\<lambda>s. configured s)
         (block [
            query_conditions ev http,
            query_forecast ev http,
            modify (\<lambda>s. s\<lparr>force := False\<rparr>)])
         skip]"

text \<open>
  \<^verbatim>\<open>parameterHandler(params)\<close>: \<open>loaded\<close> is the state of \<^verbatim>\<open>self.params\<close> after the
  two calls \<^verbatim>\<open>self.Parameters.load(params)\<close> and \<^verbatim>\<open>self.params.update(self.Parameters)\<close>,
  which belong to the host and to the missing module.
\<close>

definition parameterHandler :: "env \<Rightarrow> nsparams \<Rightarrow> controller stmt" where
  "parameterHandler ev loaded =
     block [
       modify (\<lambda>s. s\<lparr>params := loaded\<rparr>),
       cond (\<lambda>s. isConfigured (params s))
         (block [
            modify (\<lambda>s. s\<lparr>configured := True\<rparr>),
            cond (\<lambda>s. isSet (params s) ''Forecast Days'') (discover ev) skip])
         skip]"

text \<open>\<^verbatim>\<open>poll(longpoll)\<close>.\<close>

definition poll :: "env \<Rightarrow> (string \<Rightarrow> json option) \<Rightarrow> bool \<Rightarrow> controller stmt" where
  "poll ev http longpoll = (if longpoll then query_forecast ev http else query_conditions ev http)"

section \<open>Relations between the state before and after a statement\<close>

text \<open>A statement keeps a relation when the state it leaves is related to the state it started in, however it ends.\<close>

definition keeps :: "('s \<Rightarrow> 's \<Rightarrow> bool) \<Rightarrow> 's stmt \<Rightarrow> bool" where
  "keeps R c = (\<forall>s. R s (fst (c s)))"

text \<open>The driver values outside the set \<open>D\<close> are the same.\<close>

definition drivers_off :: "string set \<Rightarrow> 'a controller_scheme \<Rightarrow> 'a controller_scheme \<Rightarrow> bool" where
  "drivers_off D s s' = (\<forall>d. d \<notin> D \<longrightarrow> drivers s' d = drivers s d)"

text \<open>The value that a projection reads is the same.\<close>

definition same :: "('s \<Rightarrow> 'v) \<Rightarrow> 's \<Rightarrow> 's \<Rightarrow> bool" where
  "same f s s' = (f s' = f s)"

text \<open>The payload carries the provider key of the logical field that a line reads.\<close>

definition present :: "(string \<rightharpoonup> string) \<Rightarrow> (string \<times> json) list \<Rightarrow> string \<times> string \<Rightarrow> bool" where
  "present tg items line =
     (case tg (snd line) of None \<Rightarrow> False | Some key \<Rightarrow> map_of items key \<noteq> None)"

text \<open>
  The driver of a line holds the value that the payload carries under the line's
  provider key, when that value converts to a number.
\<close>

definition written :: "env \<Rightarrow> (string \<rightharpoonup> string) \<Rightarrow> (string \<times> json) list \<Rightarrow> (string \<rightharpoonup> real) \<Rightarrow> string \<times> string \<Rightarrow> bool" where
  "written ev tg items m line =
     (case tg (snd line) of
        None \<Rightarrow> True
      | Some key \<Rightarrow>
          (case map_of items key of
             None \<Rightarrow> True
           | Some v \<Rightarrow> (case py_float ev v of Inl e \<Rightarrow> True | Inr r \<Rightarrow> m (fst line) = Some r)))"

text \<open>
  The first \<^verbatim>\<open>try\<close> block, started in the state \<open>s\<close>, ended in its handler:
  the method goes on to the next statement, the failure is the one entry added to the
  log since the state \<open>s2\<close> in which the extraction started, and the local
  \<^verbatim>\<open>precipitation\<close> is what it was.
\<close>

definition ends_in_handler :: "conditions_frame \<Rightarrow> conditions_frame \<Rightarrow> conditions_frame \<times> outcome \<Rightarrow> bool" where
  "ends_in_handler s s2 result =
     (snd result = Next \<and>
      logged (fst result) = logged s2 @ [LogError ''Current observation update failure''] \<and>
      precipitation (fst result) = precipitation s)"

section \<open>Sample inputs\<close>

text \<open>
  Concrete inputs on which the properties below are exercised: an environment whose
  integer conversion reads the one-digit strings, parameters with every required value
  set and imperial units, a controller after \<^verbatim>\<open>set_tags\<close>, and provider responses.
\<close>

definition sample_env :: env where
  "sample_env =
     \<lparr>float_of_str = (\<lambda>s. None),
      int_of_str = map_of [(''0'', 0), (''1'', 1), (''2'', 2), (''3'', 3), (''4'', 4),
                           (''5'', 5), (''6'', 6), (''7'', 7), (''8'', 8), (''9'', 9)],
      str_of_float = (\<lambda>r. ''0''),
      coverage_codes = (\<lambda>s. 1), intensity_codes = (\<lambda>s. 2), weather_codes = (\<lambda>s. 3),
      delNode_fails = (\<lambda>a. False), addNode_fails = (\<lambda>a. False)\<rparr>"

definition sample_params :: "string \<Rightarrow> nsparams" where
  "sample_params days =
     \<lparr>get = (\<lambda>name.
         if name = ''ClientID'' then PStr ''id''
         else if name = ''ClientSecret'' then PStr ''secret''
         else if name = ''Location'' then PStr ''55401''
         else if name = ''Units'' then PStr ''imperial''
         else if name = ''Forecast Days'' then PStr days
         else if name = ''Elevation'' then PStr ''0''
         else PStr ''0.23''),
      isSet = (\<lambda>name. True)\<rparr>"

definition sample_controller :: "string \<Rightarrow> address set \<Rightarrow> controller" where
  "sample_controller days existing =
     \<lparr>configured = True, latitude = 0, force = True, tag = map_of imperial_tags,
      params = sample_params days, nodes = existing, drivers = Map.empty, requests = [],
      dispatched = [], logged = []\<rparr>"

text \<open>The frame of \<^verbatim>\<open>query_conditions\<close> on that controller, before the first block.\<close>

definition sample_frame :: conditions_frame where
  "sample_frame = controller.extend (sample_controller ''3'' {}) \<lparr>precipitation = JNum 0\<rparr>"

text \<open>An observation in imperial units with every key the controller reads.\<close>

definition sample_ob :: "(string \<times> json) list" where
  "sample_ob =
    [(''tempF'', JNum 70), (''humidity'', JNum 50), (''pressureIN'', JNum 30),
     (''windSpeedMPH'', JNum 5), (''windGustMPH'', JNum 9), (''windDirDEG'', JNum 180),
     (''visibilityMI'', JNum 10), (''dewpointF'', JNum 50), (''heatindexF'', JNum 71),
     (''windchillF'', JNum 69), (''feelslikeF'', JNum 70), (''solradWM2'', JNum 400),
     (''uvi'', JNum 3), (''snowDepthIN'', JNum 0), (''weatherCoded'', JStr ''PT:HVY:RA''),
     (''sky'', JNum 40), (''precipIN'', JNum (1 / 2))]"

definition without :: "string \<Rightarrow> (string \<times> json) list \<Rightarrow> (string \<times> json) list" where
  "without key items = filter (\<lambda>kv. fst kv \<noteq> key) items"

definition with_value :: "string \<Rightarrow> json \<Rightarrow> (string \<times> json) list \<Rightarrow> (string \<times> json) list" where
  "with_value key v items = map (\<lambda>kv. if fst kv = key then (key, v) else kv) items"

definition payload :: "(string \<times> json) list \<Rightarrow> json" where
  "payload items = JObj [(''success'', JBool True), (''response'', JObj [(''ob'', JObj items)])]"

text \<open>A provider that answers the summary request with \<open>summ\<close> and any other request with \<open>obs\<close>.\<close>

definition sample_http :: "json option \<Rightarrow> json option \<Rightarrow> string \<Rightarrow> json option" where
  "sample_http obs summ url =
     (if starts_with ''http://api.aerisapi.com/observations/summary/'' url then summ else obs)"

definition sample_summary :: json where
  "sample_summary =
     JObj [(''response'',
       JArr [JObj [(''periods'',
         JArr [JObj [(''summary'',
           JObj [(''precip'', JObj [(''totalIN'', JNum 2), (''totalMM'', JNum 50.8)])])]])]])]"

text \<open>A forecast response with two daily periods.\<close>

definition sample_forecast :: json where
  "sample_forecast =
     JObj [(''response'',
       JArr [JObj [(''periods'',
         JArr [JObj [(''dateTimeISO'', JStr ''2021-06-01T00:00:00-05:00'')],
               JObj [(''dateTimeISO'', JStr ''2021-06-02T00:00:00-05:00'')]])]])]"


definition sample_fcast :: fcast where
  "sample_fcast =
     \<lparr>temp_max = 0, temp_min = 0, Hmax = 0, Hmin = 0, pressure = 0, weather = 0,
      speed = 0, clouds = 0, dt = JNull, uv = JNull\<rparr>"

definition sample_legacy :: legacy where
  "sample_legacy =
     \<lparr>legacy_location = ''55401'', legacy_apikey = ''key'', legacy_units = ''metric'',
      legacy_configured = True, legacy_latitude = 0, legacy_longitude = 0,
      legacy_fcast = sample_fcast, legacy_plant_type = JNum 0.23, legacy_elevation = JNum 0,
      legacy_uom = Map.empty, legacy_nodes = {Forecast 1, Forecast 2, Forecast 3, Forecast 4, Forecast 5},
      legacy_drivers = Map.empty, legacy_requests = [], legacy_dispatched = []\<rparr>"



text \<open>
  The parameters after the user has put ClientID back to its default, and a controller
  as \<^verbatim>\<open>__init__\<close> leaves it; \<open>reconfigured\<close> is that controller after the
  parameters were loaded once with every required value set and once more with
  ClientID unset.
\<close>

definition unset_params :: nsparams where
  "unset_params =
     \<lparr>get = (\<lambda>name.
         if name = ''ClientID'' then PStr ''set me''
         else if name = ''ClientSecret'' then PStr ''secret''
         else if name = ''Location'' then PStr ''55401''
         else if name = ''Units'' then PStr ''imperial''
         else if name = ''Forecast Days'' then PStr ''0''
         else if name = ''Elevation'' then PStr ''0''
         else PStr ''0.23''),
      isSet = (\<lambda>name. name \<noteq> ''ClientID'')\<rparr>"

definition fresh_controller :: controller where
  "fresh_controller =
     \<lparr>configured = False, latitude = 0, force = True, tag = map_of imperial_tags,
      params = unset_params, nodes = {}, drivers = Map.empty, requests = [],
      dispatched = [], logged = []\<rparr>"

definition reconfigured :: controller where
  "reconfigured =
     fst (parameterHandler sample_env unset_params
       (fst (parameterHandler sample_env (sample_params ''0'') fresh_controller)))"

text \<open>
  A controller without forecast nodes after the user has set Forecast Days to 9 and
  then to 3.
\<close>

definition resized :: controller where
  "resized =
     fst (parameterHandler sample_env (sample_params ''3'')
       (fst (parameterHandler sample_env (sample_params ''9'') (sample_controller ''0'' {}))))"

text \<open>The two requests of a conditions poll of the sample controller.\<close>

definition observations_url :: string where
  "observations_url = ''http://api.aerisapi.com/observations/55401?client_id=id&client_secret=secret''"

definition summary_url :: string where
  "summary_url =
     ''http://api.aerisapi.com/observations/summary/55401?client_id=id&client_secret=secret&fields=periods.summary.precip''"

text \<open>The frame in which the extraction starts on a response without location data.\<close>

definition sample_started :: conditions_frame where
  "sample_started =
     sample_frame\<lparr>requests := [observations_url],
                  logged := [LogError ''No location data in response.'']\<rparr>"

text \<open>The controller after a conditions poll on an observation and a summary response.\<close>

definition conditions_run :: "json option \<Rightarrow> json option \<Rightarrow> controller" where
  "conditions_run obs summ =
     fst (query_conditions sample_env (sample_http obs summ) (sample_controller ''3'' {}))"


section \<open>Properties\<close>

subsection \<open>Rules for statements that keep a relation\<close>

lemma keeps_skip: "reflp R \<Longrightarrow> keeps R skip"
  by (simp add: keeps_def skip_def reflp_def)

lemma keeps_ret: "reflp R \<Longrightarrow> keeps R ret"
  by (simp add: keeps_def ret_def reflp_def)

lemma keeps_raise: "reflp R \<Longrightarrow> keeps R (raise e)"
  by (simp add: keeps_def raise_def reflp_def)

lemma keeps_modify: "(\<And>s. R s (upd s)) \<Longrightarrow> keeps R (modify upd)"
  by (simp add: keeps_def modify_def)

lemma keepsD: "keeps R c \<Longrightarrow> c s = (s1, out) \<Longrightarrow> R s s1"
  unfolding keeps_def by (metis fst_conv)

lemma keeps_seq:
  assumes "transp R" and "keeps R a" and "keeps R b"
  shows "keeps R (seq a b)"
  unfolding keeps_def
proof
  fix s
  obtain s1 out where a: "a s = (s1, out)"
    by (cases "a s")
  have r1: "R s s1"
    by (rule keepsD [OF assms(2) a])
  show "R s (fst (seq a b s))"
  proof (cases "out = Next")
    case True
    obtain s2 out2 where b: "b s1 = (s2, out2)"
      by (cases "b s1")
    have "R s1 s2"
      by (rule keepsD [OF assms(3) b])
    with r1 assms(1) have "R s s2"
      by (blast dest: transpD)
    with a b True show ?thesis by (simp add: seq_def)
  next
    case False
    with a r1 show ?thesis by (simp add: seq_def)
  qed
qed

lemma keeps_block:
  "reflp R \<Longrightarrow> transp R \<Longrightarrow> list_all (keeps R) cs \<Longrightarrow> keeps R (block cs)"
  by (induction cs) (simp_all add: keeps_skip keeps_seq)

lemma keeps_expr: "reflp R \<Longrightarrow> (\<And>v. keeps R (k v)) \<Longrightarrow> keeps R (expr x k)"
  by (cases x) (simp_all add: keeps_def expr_def reflp_def)

lemma keeps_expr_of: "reflp R \<Longrightarrow> (\<And>v. keeps R (k v)) \<Longrightarrow> keeps R (expr_of x k)"
  unfolding keeps_def expr_of_def expr_def reflp_def
  by (auto split: sum.splits)

lemma keeps_assign: "reflp R \<Longrightarrow> (\<And>v s. R s (upd v s)) \<Longrightarrow> keeps R (assign x upd)"
  unfolding assign_def by (rule keeps_expr) (simp_all add: keeps_def)

lemma keeps_cond: "keeps R t \<Longrightarrow> keeps R e \<Longrightarrow> keeps R (cond b t e)"
  by (simp add: keeps_def cond_def)

lemma keeps_try:
  assumes "transp R" and "keeps R body" and "keeps R handler"
  shows "keeps R (try_except body handler)"
  unfolding keeps_def
proof
  fix s
  obtain s1 out where a: "body s = (s1, out)"
    by (cases "body s")
  have r1: "R s s1"
    by (rule keepsD [OF assms(2) a])
  show "R s (fst (try_except body handler s))"
  proof (cases out)
    case (Raised e)
    obtain s2 out2 where b: "handler s1 = (s2, out2)"
      by (cases "handler s1")
    have "R s1 s2"
      by (rule keepsD [OF assms(3) b])
    with r1 assms(1) have "R s s2"
      by (blast dest: transpD)
    with a b Raised show ?thesis by (simp add: try_except_def)
  next
    case Next
    with a r1 show ?thesis by (simp add: try_except_def)
  next
    case Returned
    with a r1 show ?thesis by (simp add: try_except_def)
  qed
qed

lemma keeps_for_each:
  "reflp R \<Longrightarrow> transp R \<Longrightarrow> (\<And>x. x \<in> set xs \<Longrightarrow> keeps R (body x)) \<Longrightarrow> keeps R (for_each xs body)"
  by (induction xs) (simp_all add: keeps_skip keeps_seq)

lemma keeps_log_event: "(\<And>s l. R s (s\<lparr>logged := l\<rparr>)) \<Longrightarrow> keeps R (log_event e)"
  unfolding log_event_def by (rule keeps_modify) simp

lemma keeps_get_weather_data:
  assumes "reflp R" and "transp R" and "\<And>s r. R s (s\<lparr>requests := r\<rparr>)"
    and "\<And>j. keeps R (k j)"
  shows "keeps R (get_weather_data http extra k)"
  unfolding keeps_def
proof
  fix s
  show "R s (fst (get_weather_data http extra k s))"
  proof (cases "weather_request s extra")
    case (Inl e)
    with assms(1) show ?thesis
      by (simp add: get_weather_data_def expr_of_def expr_def reflp_def)
  next
    case (Inr request)
    let ?s1 = "s\<lparr>requests := requests s @ [request]\<rparr>"
    let ?j = "case http request of None \<Rightarrow> JNull | Some jdata \<Rightarrow> jdata"
    have run: "get_weather_data http extra k s = k ?j ?s1"
      using Inr
      by (simp add: get_weather_data_def expr_of_def expr_def Let_def split: option.splits)
    have "R s ?s1"
      by (rule assms(3))
    moreover have "R ?s1 (fst (k ?j ?s1))"
      using assms(4) [of ?j] by (simp add: keeps_def)
    ultimately have "R s (fst (k ?j ?s1))"
      using assms(2) by (blast dest: transpD)
    with run show ?thesis by simp
  qed
qed

lemma reflp_drivers_off: "reflp (drivers_off D)"
  by (simp add: reflp_def drivers_off_def)

lemma transp_drivers_off: "transp (drivers_off D)"
  by (simp add: transp_def drivers_off_def)

lemma reflp_same: "reflp (same f)"
  by (simp add: reflp_def same_def)

lemma transp_same: "transp (same f)"
  by (simp add: transp_def same_def)

lemma update_driver_result:
  "update_driver ev d v s =
     ((case py_float ev v of Inl e \<Rightarrow> s | Inr r \<Rightarrow> s\<lparr>drivers := (drivers s)(d \<mapsto> r)\<rparr>), Next)"
  by (cases "py_float ev v") (simp_all add: update_driver_def try_except_def expr_def modify_def skip_def)

lemma keeps_update_driver: "d \<in> D \<Longrightarrow> keeps (drivers_off D) (update_driver ev d v)"
  by (cases "py_float ev v") (auto simp: keeps_def update_driver_result drivers_off_def)

lemma keeps_update_driver_same:
  "(\<And>s m. f (s\<lparr>drivers := m\<rparr>) = f s) \<Longrightarrow> keeps (same f) (update_driver ev d v)"
  by (cases "py_float ev v") (auto simp: keeps_def update_driver_result same_def)

subsection \<open>Polling is suppressed while the controller is not configured\<close>

text \<open>
  The guard of each poll operation: when the \<open>configured\<close> flag is false, the
  operation returns with the whole state as it was, so no request is sent and no driver
  value changes.
\<close>

lemma unconfigured_poll_is_noop:
  assumes "\<not> configured s" and "\<not> legacy_configured l"
  shows "query_conditions ev http s = (s, Next) \<and>
         query_forecast ev http s = (s, Next) \<and>
         poll ev http longpoll s = (s, Next) \<and>
         legacy_query_conditions ev http l = (l, None) \<and>
         legacy_query_forecast ev http l = (l, None)"
proof -
  have a: "query_conditions ev http s = (s, Next)"
    using assms(1)
    by (simp add: query_conditions_def query_conditions_body_def run_method_def seq_def cond_def
        ret_def controller.defs)
  have b: "query_forecast ev http s = (s, Next)"
    using assms(1)
    by (simp add: query_forecast_def query_forecast_body_def run_method_def seq_def cond_def
        ret_def controller.defs)
  have c: "legacy_query_conditions ev http l = (l, None)"
    using assms(2)
    by (simp add: legacy_query_conditions_def legacy_query_conditions_body_def call_def
        seq_def cond_def ret_def expr_of_def expr_def)
  have d: "legacy_query_forecast ev http l = (l, None)"
    using assms(2)
    by (simp add: legacy_query_forecast_def legacy_query_forecast_body_def call_def seq_def
        cond_def ret_def expr_of_def expr_def legacy.defs)
  from a b c d show ?thesis by (simp add: poll_def)
qed

text \<open>
  Claim C5. The guard tests the flag \<^verbatim>\<open>self.configured\<close>, and nothing in the
  controller sets the flag back to false: \<^verbatim>\<open>parameterHandler\<close> and
  \<^verbatim>\<open>check_params\<close> set it when the parameters are complete and leave it alone when
  they are not. A controller that starts with the flag false, receives complete
  parameters and then receives parameters with ClientID back at \<^verbatim>\<open>'set me'\<close> has a
  required parameter unset and the flag still true: its conditions poll sends both
  requests and writes the temperature driver, and its forecast poll sends a request.
\<close>

theorem C5_stale_flag_polls:
  "\<not> configured fresh_controller \<and>
   \<not> isConfigured (params reconfigured) \<and>
   configured reconfigured \<and>
   requests (fst (query_conditions sample_env
       (sample_http (Some (payload sample_ob)) (Some sample_summary)) reconfigured)) =
     [''http://api.aerisapi.com/observations/55401?client_id=set me&client_secret=secret'',
      ''http://api.aerisapi.com/observations/summary/55401?client_id=set me&client_secret=secret&fields=periods.summary.precip''] \<and>
   drivers (fst (query_conditions sample_env
       (sample_http (Some (payload sample_ob)) (Some sample_summary)) reconfigured)) ''CLITEMP'' =
     Some 70 \<and>
   requests (fst (query_forecast sample_env (\<lambda>url. Some sample_forecast) reconfigured)) =
     [''http://api.aerisapi.com/forecasts/55401?client_id=set me&client_secret=secret&filter=mdnt2mdnt&precise&limit=0'']"
  by code_simp

subsection \<open>The request of the legacy conditions poll\<close>

text \<open>
  Claim C10. In the legacy controller the observations request built by
  \<^verbatim>\<open>query_conditions\<close> carries the two fixed credential literals and does not depend
  on the configured API key: two states that differ only in \<open>legacy_apikey\<close> build
  the same request, which is the fixed prefix, the location and the fixed credential
  suffix.
\<close>

theorem C10_request_ignores_apikey:
  "conditions_request (s\<lparr>legacy_apikey := k\<rparr>) = conditions_request s \<and>
   conditions_request s =
     ''http://api.aerisapi.com/observations/'' @ legacy_location s @
     ''?client_id=JGlB9OD1KA1EvzoSkpBmJ'' @
     ''&client_secret=xiZGRDGO61ZP2YZH1YDwVB6tuDMX4Zx3o9yeXDyI''"
  by (simp add: conditions_request_def Let_def)

theorem C10_witness:
  "conditions_request (sample_legacy\<lparr>legacy_apikey := ''another key''\<rparr>) =
     conditions_request sample_legacy \<and>
   conditions_request sample_legacy =
     ''http://api.aerisapi.com/observations/55401?client_id=JGlB9OD1KA1EvzoSkpBmJ&client_secret=xiZGRDGO61ZP2YZH1YDwVB6tuDMX4Zx3o9yeXDyI''"
  using C10_request_ignores_apikey [where s = sample_legacy and k = "''another key''"]
  by (simp add: sample_legacy_def)

subsection \<open>The forecast horizon\<close>

text \<open>
  Claim C3. The limit of six forecast days is applied by \<^verbatim>\<open>check_params\<close> only,
  which \<^verbatim>\<open>start\<close> calls; \<^verbatim>\<open>discover\<close> reads the parameter as it is. When the user
  sets Forecast Days to 9 while the node server runs, \<^verbatim>\<open>parameterHandler\<close> calls
  \<^verbatim>\<open>discover\<close> without the limit: starting from no forecast node, the nine nodes
  \<^verbatim>\<open>forecast_0\<close> to \<^verbatim>\<open>forecast_8\<close> exist afterwards, and the parameter still reads
  \<^verbatim>\<open>'9'\<close>. On the path through \<^verbatim>\<open>start\<close> the same value is limited to 6 and the
  six nodes \<^verbatim>\<open>forecast_0\<close> to \<^verbatim>\<open>forecast_5\<close> are created.
\<close>

theorem C3_handler_skips_limit:
  "nodes (fst (parameterHandler sample_env (sample_params ''9'') (sample_controller ''0'' {}))) =
     {Forecast 0, Forecast 1, Forecast 2, Forecast 3, Forecast 4, Forecast 5, Forecast 6,
      Forecast 7, Forecast 8} \<and>
   param (fst (parameterHandler sample_env (sample_params ''9'') (sample_controller ''0'' {})))
     ''Forecast Days'' = PStr ''9'' \<and>
   nodes (fst (start_body sample_env (\<lambda>url. None) (sample_controller ''9'' {}))) =
     {Forecast 0, Forecast 1, Forecast 2, Forecast 3, Forecast 4, Forecast 5} \<and>
   param (fst (start_body sample_env (\<lambda>url. None) (sample_controller ''9'' {})))
     ''Forecast Days'' = PInt 6"
  by code_simp

text \<open>
  Claim C7. The loop of \<^verbatim>\<open>query_forecast\<close> compares the day index with the horizon
  after it has handed the period to the node. With Forecast Days at its default
  \<^verbatim>\<open>'0'\<close>, a node \<^verbatim>\<open>forecast_0\<close> still registered and a response of two periods, the
  first period, whose day index 0 is not below the horizon 0, is dispatched to
  \<^verbatim>\<open>forecast_0\<close>; the second is not.
\<close>

theorem C7_dispatch_at_horizon_zero:
  "py_int sample_env (param (sample_controller ''0'' {Forecast 0}) ''Forecast Days'') = Inr 0 \<and>
   map d_address (dispatched (fst
     (query_forecast sample_env (\<lambda>url. Some sample_forecast)
        (sample_controller ''0'' {Forecast 0})))) = [Forecast 0]"
  by code_simp

subsection \<open>Reconciling the forecast nodes\<close>

lemma seq_Next: "a s = (s1, Next) \<Longrightarrow> seq a b s = b s1"
  by (simp add: seq_def)

lemma set_py_range: "set (py_range a b) = {d. a \<le> d \<and> d < b}"
  by (auto simp: py_range_def)

lemma try_delNode:
  "try_except (delNode ev a) (log_event (FailedDelete a)) s =
     (if delNode_fails ev a then s\<lparr>logged := logged s @ [FailedDelete a]\<rparr>
      else s\<lparr>nodes := nodes s - {a}\<rparr>, Next)"
  by (simp add: try_except_def delNode_def cond_def raise_def modify_def log_event_def)

lemma try_addNode:
  "try_except (addNode ev a) (log_event (FailedCreate a)) s =
     (if addNode_fails ev a then s\<lparr>logged := logged s @ [FailedCreate a]\<rparr>
      else s\<lparr>nodes := insert a (nodes s)\<rparr>, Next)"
  by (simp add: try_except_def addNode_def cond_def raise_def modify_def log_event_def)

lemma delete_loop:
  "for_each ds (\<lambda>d. try_except (delNode ev (Forecast d)) (log_event (FailedDelete (Forecast d)))) s =
     (s\<lparr>nodes := nodes s - Forecast ` {d \<in> set ds. \<not> delNode_fails ev (Forecast d)},
        logged := logged s @ map (\<lambda>d. FailedDelete (Forecast d))
                    (filter (\<lambda>d. delNode_fails ev (Forecast d)) ds)\<rparr>, Next)"
proof (induction ds arbitrary: s)
  case Nil
  show ?case by (simp add: skip_def)
next
  case (Cons d ds)
  let ?body = "\<lambda>d. try_except (delNode ev (Forecast d)) (log_event (FailedDelete (Forecast d)))"
  let ?s1 = "if delNode_fails ev (Forecast d) then s\<lparr>logged := logged s @ [FailedDelete (Forecast d)]\<rparr>
      else s\<lparr>nodes := nodes s - {Forecast d}\<rparr>"
  have step: "?body d s = (?s1, Next)"
    by (rule try_delNode)
  have "for_each (d # ds) ?body s = for_each ds ?body ?s1"
    by (simp only: for_each.simps seq_def step prod.case refl if_True)
  also have "\<dots> = (?s1\<lparr>nodes := nodes ?s1 - Forecast ` {d \<in> set ds. \<not> delNode_fails ev (Forecast d)},
        logged := logged ?s1 @ map (\<lambda>d. FailedDelete (Forecast d))
                    (filter (\<lambda>d. delNode_fails ev (Forecast d)) ds)\<rparr>, Next)"
    by (rule Cons.IH)
  also have "\<dots> = (s\<lparr>nodes := nodes s - Forecast ` {x \<in> set (d # ds). \<not> delNode_fails ev (Forecast x)},
        logged := logged s @ map (\<lambda>d. FailedDelete (Forecast d))
                    (filter (\<lambda>d. delNode_fails ev (Forecast d)) (d # ds))\<rparr>, Next)"
  proof (cases "delNode_fails ev (Forecast d)")
    case True
    have "{x \<in> set (d # ds). \<not> delNode_fails ev (Forecast x)} = {x \<in> set ds. \<not> delNode_fails ev (Forecast x)}"
      using True by auto
    then show ?thesis using True by simp
  next
    case False
    have "nodes s - {Forecast d} - Forecast ` {x \<in> set ds. \<not> delNode_fails ev (Forecast x)}
          = nodes s - Forecast ` {x \<in> set (d # ds). \<not> delNode_fails ev (Forecast x)}"
      using False by auto
    then show ?thesis using False by simp
  qed
  finally show ?case .
qed

lemma create_loop:
  "for_each ds (\<lambda>d. try_except (addNode ev (Forecast d)) (log_event (FailedCreate (Forecast d)))) s =
     (s\<lparr>nodes := nodes s \<union> Forecast ` {d \<in> set ds. \<not> addNode_fails ev (Forecast d)},
        logged := logged s @ map (\<lambda>d. FailedCreate (Forecast d))
                    (filter (\<lambda>d. addNode_fails ev (Forecast d)) ds)\<rparr>, Next)"
proof (induction ds arbitrary: s)
  case Nil
  show ?case by (simp add: skip_def)
next
  case (Cons d ds)
  let ?body = "\<lambda>d. try_except (addNode ev (Forecast d)) (log_event (FailedCreate (Forecast d)))"
  let ?s1 = "if addNode_fails ev (Forecast d) then s\<lparr>logged := logged s @ [FailedCreate (Forecast d)]\<rparr>
      else s\<lparr>nodes := insert (Forecast d) (nodes s)\<rparr>"
  have step: "?body d s = (?s1, Next)"
    by (rule try_addNode)
  have "for_each (d # ds) ?body s = for_each ds ?body ?s1"
    by (simp only: for_each.simps seq_def step prod.case refl if_True)
  also have "\<dots> = (?s1\<lparr>nodes := nodes ?s1 \<union> Forecast ` {d \<in> set ds. \<not> addNode_fails ev (Forecast d)},
        logged := logged ?s1 @ map (\<lambda>d. FailedCreate (Forecast d))
                    (filter (\<lambda>d. addNode_fails ev (Forecast d)) ds)\<rparr>, Next)"
    by (rule Cons.IH)
  also have "\<dots> = (s\<lparr>nodes := nodes s \<union> Forecast ` {x \<in> set (d # ds). \<not> addNode_fails ev (Forecast x)},
        logged := logged s @ map (\<lambda>d. FailedCreate (Forecast d))
                    (filter (\<lambda>d. addNode_fails ev (Forecast d)) (d # ds))\<rparr>, Next)"
  proof (cases "addNode_fails ev (Forecast d)")
    case True
    have "{x \<in> set (d # ds). \<not> addNode_fails ev (Forecast x)} = {x \<in> set ds. \<not> addNode_fails ev (Forecast x)}"
      using True by auto
    then show ?thesis using True by simp
  next
    case False
    have "insert (Forecast d) (nodes s) \<union> Forecast ` {x \<in> set ds. \<not> addNode_fails ev (Forecast x)}
          = nodes s \<union> Forecast ` {x \<in> set (d # ds). \<not> addNode_fails ev (Forecast x)}"
      using False by auto
    then show ?thesis using False by simp
  qed
  finally show ?case .
qed

lemma seq_fst: "fst (a s) = s \<Longrightarrow> fst (b s) = s \<Longrightarrow> fst (seq a b s) = s"
  by (cases "a s") (auto simp: seq_def)

lemma expr_fst: "(\<And>v. fst (k v s) = s) \<Longrightarrow> fst (expr x k s) = s"
  by (cases x) (simp_all add: expr_def)

lemma lookup_loop:
  "fst (for_each ds (\<lambda>d. cond (\<lambda>s. Forecast d \<in> nodes s) skip (raise KeyError)) s) = s"
  by (induction ds) (auto simp: skip_def seq_def cond_def raise_def)

lemma set_driver_uom_state: "fst (set_driver_uom ev units s) = s"
  unfolding set_driver_uom_def block.simps expr_of_def
  by (intro seq_fst expr_fst lookup_loop) (simp_all add: skip_def)

lemma discover_state:
  assumes "py_int ev (param s ''Forecast Days'') = Inr h"
  shows "fst (discover ev s) =
     s\<lparr>nodes := (nodes s - Forecast ` {d. h \<le> d \<and> d < 7 \<and> \<not> delNode_fails ev (Forecast d)})
                  \<union> Forecast ` {d. 0 \<le> d \<and> d < h \<and> \<not> addNode_fails ev (Forecast d)},
       logged := logged s
                  @ map (\<lambda>d. FailedDelete (Forecast d))
                      (filter (\<lambda>d. delNode_fails ev (Forecast d)) (py_range h 7))
                  @ map (\<lambda>d. FailedCreate (Forecast d))
                      (filter (\<lambda>d. addNode_fails ev (Forecast d)) (py_range 0 h))\<rparr>"
proof -
  let ?del = "cond (\<lambda>s. h < 7)
         (for_each (py_range h 7) (\<lambda>d.
            try_except (delNode ev (Forecast d)) (log_event (FailedDelete (Forecast d)))))
         skip"
  let ?add = "for_each (py_range 0 h) (\<lambda>d.
         try_except (addNode ev (Forecast d)) (log_event (FailedCreate (Forecast d))))"
  let ?uom = "expr_of (\<lambda>s. Inr (param s ''Units'')) (set_driver_uom ev)"
  let ?sA = "s\<lparr>nodes := nodes s - Forecast ` {d. h \<le> d \<and> d < 7 \<and> \<not> delNode_fails ev (Forecast d)},
        logged := logged s @ map (\<lambda>d. FailedDelete (Forecast d))
                    (filter (\<lambda>d. delNode_fails ev (Forecast d)) (py_range h 7))\<rparr>"
  let ?sB = "?sA\<lparr>nodes := nodes ?sA \<union> Forecast ` {d. 0 \<le> d \<and> d < h \<and> \<not> addNode_fails ev (Forecast d)},
        logged := logged ?sA @ map (\<lambda>d. FailedCreate (Forecast d))
                    (filter (\<lambda>d. addNode_fails ev (Forecast d)) (py_range 0 h))\<rparr>"
  have unfold: "discover ev s = seq ?del (seq ?add (seq ?uom skip)) s"
    using assms by (simp add: discover_def expr_of_def expr_def)
  have A: "?del s = (?sA, Next)"
  proof (cases "h < 7")
    case True
    then show ?thesis by (simp add: cond_def delete_loop set_py_range)
  next
    case False
    then have e: "py_range h 7 = []"
      by (simp add: py_range_def)
    have "nodes s - Forecast ` {d. h \<le> d \<and> d < 7 \<and> \<not> delNode_fails ev (Forecast d)} = nodes s"
      using False by auto
    then have "?sA = s"
      by (simp only: e filter.simps list.map append_Nil2) simp
    with False show ?thesis by (simp only: cond_def skip_def if_False)
  qed
  have B: "?add ?sA = (?sB, Next)"
    by (simp only: create_loop set_py_range) simp
  have C: "fst (seq ?uom skip ?sB) = ?sB"
    by (intro seq_fst) (simp_all add: expr_of_def expr_def set_driver_uom_state skip_def)
  have "fst (discover ev s) = fst (seq ?uom skip ?sB)"
    by (simp only: unfold seq_def A B prod.case refl if_True)
  with C show ?thesis by simp
qed

text \<open>
  Claim C6. \<^verbatim>\<open>discover\<close> deletes over the fixed window \<^verbatim>\<open>range(num_days, 7)\<close>
  under the comment \<^verbatim>\<open>delete any extra days\<close>, and adds over
  \<^verbatim>\<open>range(0, num_days)\<close>. Within the window it does what the claim says: horizon 3
  with the nodes of days 0 to 4 registered leaves exactly the nodes of days 0 to 2. A
  registered node beyond the window is an extra day that is never deleted: after the
  user has set Forecast Days to 9 and then to 3, the nodes of days 7 and 8 are still
  registered, and nothing is logged; likewise horizon 3 with the node of day 8
  registered leaves \<^verbatim>\<open>forecast_8\<close> in place.
\<close>

theorem C6_orphan_nodes_survive:
  "py_int sample_env (param resized ''Forecast Days'') = Inr 3 \<and>
   nodes resized = {Forecast 0, Forecast 1, Forecast 2, Forecast 7, Forecast 8} \<and>
   logged resized = [] \<and>
   nodes (fst (discover sample_env (sample_controller ''3'' {Forecast 8}))) =
     {Forecast 0, Forecast 1, Forecast 2, Forecast 8} \<and>
   nodes (fst (discover sample_env
      (sample_controller ''3'' {Forecast 0, Forecast 1, Forecast 2, Forecast 3, Forecast 4}))) =
     {Forecast 0, Forecast 1, Forecast 2}"
  by code_simp

subsection \<open>Extraction of the observation\<close>

lemma update_from_present:
  "tag s (snd line) = Some key \<Longrightarrow> map_of items key = Some v \<Longrightarrow>
   update_from ev (JObj items) line s = update_driver ev (fst line) v s"
  by (simp add: update_from_def expr_of_def expr_def tag_of_def bindE_def)

lemma update_from_absent:
  "tag s (snd line) = Some key \<Longrightarrow> map_of items key = None \<Longrightarrow>
   update_from ev (JObj items) line s = (s, Raised KeyError)"
  by (simp add: update_from_def expr_of_def expr_def tag_of_def bindE_def)

lemma keeps_update_from: "fst line \<in> D \<Longrightarrow> keeps (drivers_off D) (update_from ev ob line)"
  unfolding update_from_def
  by (intro keeps_expr_of keeps_update_driver reflp_drivers_off)

lemma keeps_update_from_same:
  "(\<And>s m. f (s\<lparr>drivers := m\<rparr>) = f s) \<Longrightarrow> keeps (same f) (update_from ev ob line)"
  unfolding update_from_def
  by (intro keeps_expr_of keeps_update_driver_same reflp_same)

lemma keeps_fields_loop:
  "keeps (drivers_off (fst ` set lines)) (for_each lines (update_from ev ob))"
  by (intro keeps_for_each keeps_update_from reflp_drivers_off transp_drivers_off) simp

lemma fields_loop_off:
  "drivers_off (fst ` set lines) s (fst (for_each lines (update_from ev ob) s))"
  by (rule keeps_fields_loop [unfolded keeps_def, rule_format])

lemma keeps_fields_loop_same:
  "(\<And>s m. f (s\<lparr>drivers := m\<rparr>) = f s) \<Longrightarrow> keeps (same f) (for_each lines (update_from ev ob))"
  by (intro keeps_for_each keeps_update_from_same reflp_same transp_same)

lemma fields_loop_same:
  "(\<And>s m. f (s\<lparr>drivers := m\<rparr>) = f s) \<Longrightarrow> f (fst (for_each lines (update_from ev ob) s)) = f s"
  by (rule keeps_fields_loop_same [unfolded keeps_def same_def, rule_format])

lemma update_from_step:
  assumes "present (tag s) items line"
  shows "\<exists>s1. update_from ev (JObj items) line s = (s1, Next) \<and> tag s1 = tag s"
proof -
  from assms obtain key v where k: "tag s (snd line) = Some key" "map_of items key = Some v"
    by (auto simp: present_def split: option.splits)
  show ?thesis
    by (cases "py_float ev v") (simp_all add: update_from_present [OF k] update_driver_result)
qed

lemma fields_loop_Next:
  "list_all (present (tag s) items) lines \<Longrightarrow>
   snd (for_each lines (update_from ev (JObj items)) s) = Next"
proof (induction lines arbitrary: s)
  case Nil
  show ?case by (simp add: skip_def)
next
  case (Cons line lines)
  from Cons.prems obtain s1 where
    s1: "update_from ev (JObj items) line s = (s1, Next)" "tag s1 = tag s"
    using update_from_step [of s items line ev] by auto
  from Cons.prems s1 have "list_all (present (tag s1) items) lines" by simp
  from Cons.IH [OF this] show ?case by (simp add: seq_def s1)
qed

lemma fields_loop_written:
  assumes "distinct (map fst lines)" and "list_all (present (tag s) items) lines"
    and "line \<in> set lines" and "tag s (snd line) = Some key" and "map_of items key = Some v"
    and "py_float ev v = Inr r"
  shows "drivers (fst (for_each lines (update_from ev (JObj items)) s)) (fst line) = Some r"
  using assms
proof (induction lines arbitrary: s)
  case Nil
  then show ?case by simp
next
  case (Cons l lines)
  from Cons.prems(2) obtain s1 where
    s1: "update_from ev (JObj items) l s = (s1, Next)" "tag s1 = tag s"
    using update_from_step [of s items l ev] by auto
  have run: "for_each (l # lines) (update_from ev (JObj items)) s =
             for_each lines (update_from ev (JObj items)) s1"
    by (simp add: seq_def s1)
  show ?case
  proof (cases "line = l")
    case True
    have "s1 = s\<lparr>drivers := (drivers s)(fst line \<mapsto> r)\<rparr>"
      using s1(1) update_from_present [OF Cons.prems(4,5), of ev] True Cons.prems(6)
      by (simp add: update_driver_result)
    then have a: "drivers s1 (fst line) = Some r" by simp
    have "fst line \<notin> fst ` set lines"
      using Cons.prems(1) True by auto
    with fields_loop_off [of lines s1 ev "JObj items"]
    have "drivers (fst (for_each lines (update_from ev (JObj items)) s1)) (fst line) = drivers s1 (fst line)"
      by (simp add: drivers_off_def)
    with a run show ?thesis by simp
  next
    case False
    with Cons.prems(3) have m: "line \<in> set lines" by simp
    have "drivers (fst (for_each lines (update_from ev (JObj items)) s1)) (fst line) = Some r"
      using Cons.prems s1 m by (intro Cons.IH) simp_all
    with run show ?thesis by simp
  qed
qed

lemma for_each_append:
  "for_each (xs @ ys) body s = seq (for_each xs body) (for_each ys body) s"
proof (induction xs arbitrary: s)
  case Nil
  show ?case by (simp add: seq_def skip_def)
next
  case (Cons x xs)
  obtain s1 out where step: "body x s = (s1, out)"
    by (cases "body x s")
  show ?case
  proof (cases "out = Next")
    case True
    with step Cons [of s1] show ?thesis by (simp add: seq_def)
  next
    case False
    with step show ?thesis by (simp add: seq_def)
  qed
qed

lemma fields_loop_tag: "tag (fst (for_each lines (update_from ev ob) s)) = tag s"
  by (rule fields_loop_same) simp

lemma fields_loop_stops:
  assumes "list_all (present (tag s) items) pre"
    and "tag s (snd line) = Some key" and "map_of items key = None"
  shows "for_each (pre @ line # post) (update_from ev (JObj items)) s =
           (fst (for_each pre (update_from ev (JObj items)) s), Raised KeyError)"
proof -
  let ?loop = "\<lambda>ls. for_each ls (update_from ev (JObj items))"
  obtain sP out where sP: "?loop pre s = (sP, out)"
    by (cases "?loop pre s")
  with fields_loop_Next [OF assms(1), of ev] have out: "out = Next"
    by simp
  have "tag sP = tag s"
    using fields_loop_tag [of pre ev "JObj items" s] sP by simp
  with assms(2) have "tag sP (snd line) = Some key" by simp
  from update_from_absent [OF this assms(3)]
  have stop: "update_from ev (JObj items) line sP = (sP, Raised KeyError)" .
  have "?loop (pre @ line # post) s = seq (?loop pre) (?loop (line # post)) s"
    by (simp only: for_each_append)
  also have "\<dots> = ?loop (line # post) sP"
    by (simp only: seq_def sP out prod.case if_True refl)
  also have "\<dots> = (sP, Raised KeyError)"
    by (simp only: for_each.simps seq_def stop prod.case) simp
  finally show ?thesis by (simp add: sP)
qed


lemma block_first_stops:
  "a s = (s1, out) \<Longrightarrow> out \<noteq> Next \<Longrightarrow> block (a # rest) s = (s1, out)"
  by (simp add: seq_def)

lemma block_first_Next:
  "a s = (s1, Next) \<Longrightarrow> block (a # rest) s = block rest s1"
  by (simp add: seq_def)

lemma distinct_observation_drivers: "distinct (map fst observation_fields)"
  by (simp add: observation_fields_def)

lemma py_get_in: "py_get j k = Inr v \<Longrightarrow> py_in k j = Inr True"
  by (cases j) (auto split: option.splits)

lemma py_get_not_null: "py_get j k = Inr v \<Longrightarrow> j \<noteq> JNull"
  by (cases j) simp_all

lemma get_weather_data_run:
  "weather_request s extra = Inr url \<Longrightarrow>
   get_weather_data http extra k s =
     k (case http url of None \<Rightarrow> JNull | Some jdata \<Rightarrow> jdata)
       (s\<lparr>requests := requests s @ [url]\<rparr>)"
  by (simp add: get_weather_data_def expr_of_def expr_def Let_def split: option.splits)

lemma seq_skip_right: "seq c skip s = c s"
  by (cases "c s") (simp add: seq_def skip_def)

lemma keeps_capture_latitude:
  assumes "\<And>s l. f (s\<lparr>logged := l\<rparr>) = f s" and "\<And>s r. f (s\<lparr>latitude := r\<rparr>) = f s"
  shows "keeps (same f) (capture_latitude ev response)"
  unfolding capture_latitude_def
  by (intro keeps_expr keeps_cond keeps_modify keeps_log_event reflp_same)
     (simp_all add: same_def assms)

lemma observation_block_reaches:
  assumes "weather_request s ''observations'' = Inr url" and "http url = Some jdata"
    and "py_get jdata ''response'' = Inr response" and "py_get response ''ob'' = Inr ob"
    and "capture_latitude ev response (s\<lparr>requests := requests s @ [url]\<rparr>) = (s2, Next)"
  shows "observation_block ev http s =
           try_except (extract_observation ev ob)
             (log_event (LogError ''Current observation update failure'')) s2"
proof -
  let ?s1 = "s\<lparr>requests := requests s @ [url]\<rparr>"
  have a: "jdata \<noteq> JNull" "py_in ''response'' jdata = Inr True"
    using assms(3) by (simp_all add: py_get_not_null py_get_in)
  have b: "py_in ''ob'' response = Inr True"
    using assms(4) by (rule py_get_in)
  show ?thesis
    by (simp add: observation_block_def try_except_def get_weather_data_run [OF assms(1)]
        assms(2-5) a b seq_def cond_def skip_def expr_def
        split: prod.splits outcome.splits)
qed

lemma capture_keeps:
  assumes "capture_latitude ev response s1 = (s2, out)"
  shows "drivers s2 = drivers s1" and "tag s2 = tag s1" and "requests s2 = requests s1"
proof -
  have "keeps (same drivers) (capture_latitude ev response)"
    by (rule keeps_capture_latitude) simp_all
  from keepsD [OF this assms] show "drivers s2 = drivers s1" by (simp add: same_def)
  have "keeps (same tag) (capture_latitude ev response)"
    by (rule keeps_capture_latitude) simp_all
  from keepsD [OF this assms] show "tag s2 = tag s1" by (simp add: same_def)
  have "keeps (same requests) (capture_latitude ev response)"
    by (rule keeps_capture_latitude) simp_all
  from keepsD [OF this assms] show "requests s2 = requests s1" by (simp add: same_def)
qed

lemma capture_keeps_precipitation:
  assumes "capture_latitude ev response s1 = (s2, out)"
  shows "precipitation s2 = precipitation s1"
proof -
  have "keeps (same precipitation) (capture_latitude ev response)"
    by (rule keeps_capture_latitude) simp_all
  from keepsD [OF this assms] show ?thesis by (simp add: same_def)
qed

lemma split_on_nonempty: "split_on c s \<noteq> []"
  by (induction s) (auto split: list.splits)

lemma coded_segment_string:
  "map_of items ''weatherCoded'' = Some (JStr w) \<Longrightarrow>
   coded_segment (JObj items) i =
     (if i < length (split_on CHR '':'' w) then Inr (split_on CHR '':'' w ! i) else Inl IndexError)"
  by (simp add: coded_segment_def bindE_def nth_seg_def)

lemma coded_weather_absent:
  "map_of items ''weatherCoded'' = None \<Longrightarrow>
   coded_weather ev (JObj items) s = (s, Raised KeyError)"
  by (simp add: coded_weather_def seq_def expr_def bindE_def)

lemma coded_weather_full:
  assumes "map_of items ''weatherCoded'' = Some (JStr w)"
    and "3 \<le> length (split_on CHR '':'' w)"
  shows "coded_weather ev (JObj items) s =
     (s\<lparr>drivers := (drivers s)(''GV11'' \<mapsto> coverage_codes ev (split_on CHR '':'' w ! 0),
                                ''GV12'' \<mapsto> intensity_codes ev (split_on CHR '':'' w ! 1),
                                ''GV13'' \<mapsto> weather_codes ev (split_on CHR '':'' w ! 2))\<rparr>,
      Next)"
  using assms
  by (simp add: coded_weather_def seq_def expr_def coded_segment_string bindE_def skip_def
      update_driver_result split_on_nonempty)

lemma coded_weather_short:
  assumes "map_of items ''weatherCoded'' = Some (JStr w)"
    and "length (split_on CHR '':'' w) < 3"
  shows "coded_weather ev (JObj items) s =
     (if length (split_on CHR '':'' w) = 1
      then s\<lparr>drivers := (drivers s)(''GV11'' \<mapsto> coverage_codes ev (split_on CHR '':'' w ! 0))\<rparr>
      else s\<lparr>drivers := (drivers s)(''GV11'' \<mapsto> coverage_codes ev (split_on CHR '':'' w ! 0),
                                     ''GV12'' \<mapsto> intensity_codes ev (split_on CHR '':'' w ! 1))\<rparr>,
      Raised IndexError)"
proof -
  let ?segs = "split_on CHR '':'' w"
  have "length ?segs \<noteq> 0"
    using split_on_nonempty [of "CHR '':''" w] by simp
  with assms(2) have n: "length ?segs = 1 \<or> length ?segs = 2"
    by arith
  from n show ?thesis
  proof
    assume "length ?segs = 1"
    then show ?thesis
      using assms(1)
      by (simp add: coded_weather_def seq_def expr_def coded_segment_string bindE_def skip_def
          update_driver_result)
  next
    assume "length ?segs = 2"
    then show ?thesis
      using assms(1)
      by (simp add: coded_weather_def seq_def expr_def coded_segment_string bindE_def skip_def
          update_driver_result)
  qed
qed

lemma keeps_coded_weather_same:
  "(\<And>s m. f (s\<lparr>drivers := m\<rparr>) = f s) \<Longrightarrow> keeps (same f) (coded_weather ev ob)"
  unfolding coded_weather_def
  by (intro keeps_block reflp_same transp_same)
     (simp add: keeps_expr keeps_skip keeps_update_driver_same reflp_same)

lemma keeps_extract_same:
  assumes "\<And>s m. f (s\<lparr>drivers := m\<rparr>) = f s" and "\<And>s v. f (s\<lparr>precipitation := v\<rparr>) = f s"
  shows "keeps (same f) (extract_observation ev ob)"
  unfolding extract_observation_def
  by (intro keeps_block reflp_same transp_same)
     (simp add: keeps_fields_loop_same keeps_coded_weather_same keeps_expr keeps_expr_of
        keeps_update_driver_same keeps_modify reflp_same assms same_def)

lemma extract_keeps:
  assumes "extract_observation ev ob s = (s1, out)"
  shows "logged s1 = logged s" and "tag s1 = tag s"
proof -
  have "keeps (same logged) (extract_observation ev ob)"
    by (rule keeps_extract_same) simp_all
  from keepsD [OF this assms] show "logged s1 = logged s" by (simp add: same_def)
  have "keeps (same tag) (extract_observation ev ob)"
    by (rule keeps_extract_same) simp_all
  from keepsD [OF this assms] show "tag s1 = tag s" by (simp add: same_def)
qed

lemma extract_precipitation:
  assumes "extract_observation ev ob s = (s1, out)"
  shows "(out \<noteq> Next \<longrightarrow> precipitation s1 = precipitation s) \<and>
         (out = Next \<longrightarrow>
            bindE (tag_of s ''precipitation'') (py_get ob) = Inr (precipitation s1))"
proof -
  let ?f = "\<lambda>s :: conditions_frame. (precipitation s, tag s)"
  let ?A = "for_each observation_fields (update_from ev ob) :: conditions_frame stmt"
  let ?B = "coded_weather ev ob :: conditions_frame stmt"
  let ?C = "expr (py_get ob ''sky'') (\<lambda>v. update_driver ev ''GV14'' v) :: conditions_frame stmt"
  let ?D = "expr_of (\<lambda>s. bindE (tag_of s ''precipitation'') (py_get ob))
         (\<lambda>v. modify (\<lambda>s. s\<lparr>precipitation := v\<rparr>)) :: conditions_frame stmt"
  have kA: "keeps (same ?f) ?A"
    by (rule keeps_fields_loop_same) simp
  have kB: "keeps (same ?f) ?B"
    by (rule keeps_coded_weather_same) simp
  have kC: "keeps (same ?f) ?C"
    by (intro keeps_expr keeps_update_driver_same reflp_same) simp
  have unfold: "extract_observation ev ob s = seq ?A (seq ?B (seq ?C ?D)) s"
    by (simp add: extract_observation_def seq_def skip_def split: prod.splits)
  obtain sA oA where A: "?A s = (sA, oA)" by (cases "?A s")
  obtain sB oB where B: "?B sA = (sB, oB)" by (cases "?B sA")
  obtain sC oC where C: "?C sB = (sC, oC)" by (cases "?C sB")
  have fA: "?f sA = ?f s" using keepsD [OF kA A] by (simp add: same_def)
  have fB: "?f sB = ?f sA" using keepsD [OF kB B] by (simp add: same_def)
  have fC: "?f sC = ?f sB" using keepsD [OF kC C] by (simp add: same_def)
  show ?thesis
  proof (cases "oA = Next")
    case False
    with assms unfold A fA show ?thesis by (simp add: seq_def)
  next
    case oA: True
    show ?thesis
    proof (cases "oB = Next")
      case False
      with assms unfold A B oA fA fB show ?thesis by (simp add: seq_def)
    next
      case oB: True
      show ?thesis
      proof (cases "oC = Next")
        case False
        with assms unfold A B C oA oB fA fB fC show ?thesis by (simp add: seq_def)
      next
        case oC: True
        have t: "tag_of sC ''precipitation'' = tag_of s ''precipitation''"
          using fA fB fC by (simp add: tag_of_def)
        have p: "precipitation sC = precipitation s"
          using fA fB fC by simp
        have run: "extract_observation ev ob s = ?D sC"
          using unfold A B C oA oB oC by (simp add: seq_def)
        show ?thesis
        proof (cases "bindE (tag_of s ''precipitation'') (py_get ob)")
          case (Inl e)
          with assms run t p show ?thesis
            by (auto simp: expr_of_def expr_def)
        next
          case (Inr v)
          with assms run t p show ?thesis
            by (auto simp: expr_of_def expr_def modify_def)
        qed
      qed
    qed
  qed
qed

lemma block_handler:
  assumes "weather_request s ''observations'' = Inr url" and "http url = Some jdata"
    and "py_get jdata ''response'' = Inr response" and "py_get response ''ob'' = Inr ob"
    and "capture_latitude ev response (s\<lparr>requests := requests s @ [url]\<rparr>) = (s2, Next)"
    and "extract_observation ev ob s2 = (s3, Raised e)"
  shows "observation_block ev http s =
           (s3\<lparr>logged := logged s3 @ [LogError ''Current observation update failure'']\<rparr>, Next)"
    and "ends_in_handler s s2 (observation_block ev http s)"
proof -
  have reach: "observation_block ev http s =
           try_except (extract_observation ev ob)
             (log_event (LogError ''Current observation update failure'')) s2"
    using observation_block_reaches [where http = http, OF assms(1-5)] .
  then show run: "observation_block ev http s =
           (s3\<lparr>logged := logged s3 @ [LogError ''Current observation update failure'']\<rparr>, Next)"
    by (simp add: try_except_def assms(6) log_event_def modify_def)
  have l: "logged s3 = logged s2"
    by (rule extract_keeps(1) [OF assms(6)])
  have "precipitation s3 = precipitation s2"
    using extract_precipitation [OF assms(6)] by simp
  moreover have "precipitation s2 = precipitation s"
    using capture_keeps_precipitation [OF assms(5)] by simp
  ultimately show "ends_in_handler s s2 (observation_block ev http s)"
    by (simp add: ends_in_handler_def run l)
qed

lemma written_cong:
  "m' (fst line) = m (fst line) \<Longrightarrow> written ev tg items m' line = written ev tg items m line"
  by (simp add: written_def split: option.splits sum.splits)

lemma fields_written_all:
  assumes "distinct (map fst lines)" and "list_all (present (tag s) items) lines"
  shows "list_all (written ev (tag s) items
           (drivers (fst (for_each lines (update_from ev (JObj items)) s)))) lines"
  unfolding list_all_iff
proof
  fix line
  assume m: "line \<in> set lines"
  show "written ev (tag s) items
          (drivers (fst (for_each lines (update_from ev (JObj items)) s))) line"
    unfolding written_def
    using fields_loop_written [OF assms m]
    by (auto split: option.splits sum.splits)
qed

lemma coded_drivers_not_fields:
  "''GV11'' \<notin> fst ` set observation_fields" "''GV12'' \<notin> fst ` set observation_fields"
  "''GV13'' \<notin> fst ` set observation_fields" "''GV14'' \<notin> fst ` set observation_fields"
  by (simp_all add: observation_fields_def)

lemma line_not_coded:
  assumes "line \<in> set observation_fields"
  shows "fst line \<noteq> ''GV11''" "fst line \<noteq> ''GV12''" "fst line \<noteq> ''GV13''" "fst line \<noteq> ''GV14''"
proof -
  from assms have "fst line \<in> fst ` set observation_fields" by simp
  with coded_drivers_not_fields show "fst line \<noteq> ''GV11''" "fst line \<noteq> ''GV12''"
    "fst line \<noteq> ''GV13''" "fst line \<noteq> ''GV14''"
    by metis+
qed

lemma fields_loop_all:
  assumes "list_all (present (tag s) items) observation_fields"
  obtains sF where "for_each observation_fields (update_from ev (JObj items)) s = (sF, Next)"
  using fields_loop_Next [OF assms, of ev]
  by (cases "for_each observation_fields (update_from ev (JObj items)) s") simp

lemma extract_stops_in_fields:
  assumes "observation_fields = pre @ (driver, name) # post"
    and "list_all (present (tag s) items) pre"
    and "tag s name = Some key" and "map_of items key = None"
  shows "extract_observation ev (JObj items) s =
           (fst (for_each pre (update_from ev (JObj items)) s), Raised KeyError)"
proof -
  have "for_each observation_fields (update_from ev (JObj items)) s =
          (fst (for_each pre (update_from ev (JObj items)) s), Raised KeyError)"
    using fields_loop_stops [where s = s and items = items and pre = pre
        and line = "(driver, name)" and key = key and ev = ev and post = post] assms
    by simp
  then show ?thesis
    by (simp add: extract_observation_def seq_def)
qed

lemma extract_stops_at_coded:
  assumes "for_each observation_fields (update_from ev (JObj items)) s = (sF, Next)"
    and "map_of items ''weatherCoded'' = None"
  shows "extract_observation ev (JObj items) s = (sF, Raised KeyError)"
  by (simp add: extract_observation_def seq_def assms(1) coded_weather_absent [OF assms(2)])

lemma extract_stops_at_sky:
  assumes "for_each observation_fields (update_from ev (JObj items)) s = (sF, Next)"
    and "map_of items ''weatherCoded'' = Some (JStr w)"
    and "3 \<le> length (split_on CHR '':'' w)"
    and "map_of items ''sky'' = None"
  shows "extract_observation ev (JObj items) s =
     (sF\<lparr>drivers := (drivers sF)
           (''GV11'' \<mapsto> coverage_codes ev (split_on CHR '':'' w ! 0),
            ''GV12'' \<mapsto> intensity_codes ev (split_on CHR '':'' w ! 1),
            ''GV13'' \<mapsto> weather_codes ev (split_on CHR '':'' w ! 2))\<rparr>,
      Raised KeyError)"
  by (simp add: extract_observation_def seq_def assms(1)
      coded_weather_full [OF assms(2,3)] expr_def assms(4))

lemma extract_stops_at_precipitation:
  assumes "for_each observation_fields (update_from ev (JObj items)) s = (sF, Next)"
    and "map_of items ''weatherCoded'' = Some (JStr w)"
    and "3 \<le> length (split_on CHR '':'' w)"
    and "map_of items ''sky'' = Some v"
    and "tag s ''precipitation'' = Some pkey" and "map_of items pkey = None"
  shows "extract_observation ev (JObj items) s =
     (fst (update_driver ev ''GV14'' v
        (sF\<lparr>drivers := (drivers sF)
              (''GV11'' \<mapsto> coverage_codes ev (split_on CHR '':'' w ! 0),
               ''GV12'' \<mapsto> intensity_codes ev (split_on CHR '':'' w ! 1),
               ''GV13'' \<mapsto> weather_codes ev (split_on CHR '':'' w ! 2))\<rparr>)),
      Raised KeyError)"
proof -
  have "tag (fst (for_each observation_fields (update_from ev (JObj items)) s)) = tag s"
    by (rule fields_loop_tag)
  then have t: "tag sF = tag s"
    by (simp add: assms(1))
  show ?thesis
    by (cases "py_float ev v")
       (simp_all add: extract_observation_def seq_def assms(1)
          coded_weather_full [OF assms(2,3)] expr_def expr_of_def assms(4,5,6)
          update_driver_result tag_of_def bindE_def t)
qed

lemma loop_facts:
  assumes "for_each observation_fields (update_from ev (JObj items)) s = (sF, Next)"
    and "list_all (present (tag s) items) observation_fields"
  shows "list_all (written ev (tag s) items (drivers sF)) observation_fields"
    and "drivers_off (fst ` set observation_fields) s sF"
proof -
  show "list_all (written ev (tag s) items (drivers sF)) observation_fields"
    using fields_written_all [OF distinct_observation_drivers assms(2), of ev] assms(1)
    by simp
  show "drivers_off (fst ` set observation_fields) s sF"
    using fields_loop_off [where lines = observation_fields and s = s and ev = ev
        and ob = "JObj items"] assms(1)
    by simp
qed

lemma written_lines_kept:
  assumes "list_all (written ev tg items m) observation_fields"
    and "\<And>line. line \<in> set observation_fields \<Longrightarrow> m' (fst line) = m (fst line)"
  shows "list_all (written ev tg items m') observation_fields"
  using assms unfolding list_all_iff
  by (metis written_cong)

text \<open>
  Claim C1, as the code has it. The location capture, the fourteen driver lines, the
  coded weather, the cloud cover and the precipitation are consecutive statements of
  one \<^verbatim>\<open>try\<close> block. Take a poll whose observation request is answered by a payload
  with the response/ob envelope and whose location capture does not raise. For every
  field that the block reads whose provider key is absent from the observation while
  the reads before it succeed, the statements before it take effect: each driver line
  before it stores the value of its key when the value converts, and the three coded
  weather drivers and the cloud cover driver are written when their statements come
  before it. The subscript of the absent key raises \<^verbatim>\<open>KeyError\<close>, which ends the
  block: every driver that the statements before it do not write keeps its value, the
  local \<^verbatim>\<open>precipitation\<close> is not assigned, the handler adds one failure to the log,
  and the method goes on to the precipitation summary. The four parts are: the absent
  key belongs to one of the fourteen driver lines; it is \<^verbatim>\<open>weatherCoded\<close>; it is
  \<^verbatim>\<open>sky\<close>; it is the precipitation key.
\<close>

theorem C1_first_absent_key_ends_block:
  assumes "weather_request s ''observations'' = Inr url" and "http url = Some jdata"
    and "py_get jdata ''response'' = Inr response"
    and "py_get response ''ob'' = Inr (JObj items)"
    and "capture_latitude ev response (s\<lparr>requests := requests s @ [url]\<rparr>) = (s2, Next)"
  shows
    "(observation_fields = pre @ (driver, name) # post \<and>
      list_all (present (tag s) items) pre \<and> tag s name = Some key \<and> map_of items key = None \<longrightarrow>
        ends_in_handler s s2 (observation_block ev http s) \<and>
        list_all (written ev (tag s) items (drivers (fst (observation_block ev http s)))) pre \<and>
        drivers_off (fst ` set pre) s (fst (observation_block ev http s))) \<and>
     (list_all (present (tag s) items) observation_fields \<and>
      map_of items ''weatherCoded'' = None \<longrightarrow>
        ends_in_handler s s2 (observation_block ev http s) \<and>
        list_all (written ev (tag s) items (drivers (fst (observation_block ev http s))))
          observation_fields \<and>
        drivers_off (fst ` set observation_fields) s (fst (observation_block ev http s))) \<and>
     (list_all (present (tag s) items) observation_fields \<and>
      map_of items ''weatherCoded'' = Some (JStr w) \<and> 3 \<le> length (split_on CHR '':'' w) \<and>
      map_of items ''sky'' = None \<longrightarrow>
        ends_in_handler s s2 (observation_block ev http s) \<and>
        list_all (written ev (tag s) items (drivers (fst (observation_block ev http s))))
          observation_fields \<and>
        drivers (fst (observation_block ev http s)) ''GV11'' =
          Some (coverage_codes ev (split_on CHR '':'' w ! 0)) \<and>
        drivers (fst (observation_block ev http s)) ''GV12'' =
          Some (intensity_codes ev (split_on CHR '':'' w ! 1)) \<and>
        drivers (fst (observation_block ev http s)) ''GV13'' =
          Some (weather_codes ev (split_on CHR '':'' w ! 2)) \<and>
        drivers_off (fst ` set observation_fields \<union> {''GV11'', ''GV12'', ''GV13''}) s
          (fst (observation_block ev http s))) \<and>
     (list_all (present (tag s) items) observation_fields \<and>
      map_of items ''weatherCoded'' = Some (JStr w) \<and> 3 \<le> length (split_on CHR '':'' w) \<and>
      map_of items ''sky'' = Some v \<and>
      tag s ''precipitation'' = Some pkey \<and> map_of items pkey = None \<longrightarrow>
        ends_in_handler s s2 (observation_block ev http s) \<and>
        list_all (written ev (tag s) items (drivers (fst (observation_block ev http s))))
          observation_fields \<and>
        drivers (fst (observation_block ev http s)) ''GV11'' =
          Some (coverage_codes ev (split_on CHR '':'' w ! 0)) \<and>
        drivers (fst (observation_block ev http s)) ''GV12'' =
          Some (intensity_codes ev (split_on CHR '':'' w ! 1)) \<and>
        drivers (fst (observation_block ev http s)) ''GV13'' =
          Some (weather_codes ev (split_on CHR '':'' w ! 2)) \<and>
        (case py_float ev v of
           Inl e \<Rightarrow> drivers (fst (observation_block ev http s)) ''GV14'' = drivers s ''GV14''
         | Inr r \<Rightarrow> drivers (fst (observation_block ev http s)) ''GV14'' = Some r) \<and>
        drivers_off (fst ` set observation_fields \<union> {''GV11'', ''GV12'', ''GV13'', ''GV14''}) s
          (fst (observation_block ev http s)))"
proof -
  let ?ob = "JObj items"
  let ?R = "observation_block ev http s"
  let ?E = "LogError ''Current observation update failure''"
  have t2: "tag s2 = tag s" and d2: "drivers s2 = drivers s"
    using capture_keeps [OF assms(5)] by simp_all
  have lift: "drivers (fst (observation_block ev http s)) = drivers s3 \<and>
              ends_in_handler s s2 (observation_block ev http s)"
    if "extract_observation ev ?ob s2 = (s3, Raised e)" for s3 e
    using block_handler [where http = http, OF assms that] by simp
  have A: "ends_in_handler s s2 ?R \<and>
        list_all (written ev (tag s) items (drivers (fst ?R))) pre \<and>
        drivers_off (fst ` set pre) s (fst ?R)"
    if h: "observation_fields = pre @ (driver, name) # post"
      "list_all (present (tag s) items) pre" "tag s name = Some key" "map_of items key = None"
  proof -
    let ?s3 = "fst (for_each pre (update_from ev ?ob) s2)"
    have x: "extract_observation ev ?ob s2 = (?s3, Raised KeyError)"
      using extract_stops_in_fields [where s = s2 and ev = ev, OF h(1)] h(2,3,4) t2 by simp
    have "distinct (map fst (pre @ (driver, name) # post))"
      using distinct_observation_drivers by (simp only: h(1))
    then have dp: "distinct (map fst pre)"
      by simp
    have w: "list_all (written ev (tag s) items (drivers ?s3)) pre"
      using fields_written_all [where s = s2 and ev = ev, OF dp] h(2) t2 by simp
    have o: "drivers_off (fst ` set pre) s ?s3"
      using fields_loop_off [where lines = pre and s = s2 and ev = ev and ob = ?ob] d2
      by (simp add: drivers_off_def)
    from lift [OF x] w o show ?thesis
      by (simp add: drivers_off_def)
  qed
  have B: "ends_in_handler s s2 ?R \<and>
        list_all (written ev (tag s) items (drivers (fst ?R))) observation_fields \<and>
        drivers_off (fst ` set observation_fields) s (fst ?R)"
    if h: "list_all (present (tag s) items) observation_fields"
      "map_of items ''weatherCoded'' = None"
  proof -
    from h(1) t2 have p2: "list_all (present (tag s2) items) observation_fields" by simp
    from fields_loop_all [OF p2, of ev] obtain sF where
      loop: "for_each observation_fields (update_from ev ?ob) s2 = (sF, Next)" .
    have x: "extract_observation ev ?ob s2 = (sF, Raised KeyError)"
      by (rule extract_stops_at_coded [OF loop h(2)])
    from loop_facts [OF loop p2] t2 d2
    have w: "list_all (written ev (tag s) items (drivers sF)) observation_fields"
      and o: "drivers_off (fst ` set observation_fields) s sF"
      by (simp_all add: drivers_off_def)
    from lift [OF x] w o show ?thesis
      by (simp add: drivers_off_def)
  qed
  have C: "ends_in_handler s s2 ?R \<and>
        list_all (written ev (tag s) items (drivers (fst ?R))) observation_fields \<and>
        drivers (fst ?R) ''GV11'' = Some (coverage_codes ev (split_on CHR '':'' w ! 0)) \<and>
        drivers (fst ?R) ''GV12'' = Some (intensity_codes ev (split_on CHR '':'' w ! 1)) \<and>
        drivers (fst ?R) ''GV13'' = Some (weather_codes ev (split_on CHR '':'' w ! 2)) \<and>
        drivers_off (fst ` set observation_fields \<union> {''GV11'', ''GV12'', ''GV13''}) s (fst ?R)"
    if h: "list_all (present (tag s) items) observation_fields"
      "map_of items ''weatherCoded'' = Some (JStr w)" "3 \<le> length (split_on CHR '':'' w)"
      "map_of items ''sky'' = None"
  proof -
    from h(1) t2 have p2: "list_all (present (tag s2) items) observation_fields" by simp
    from fields_loop_all [OF p2, of ev] obtain sF where
      loop: "for_each observation_fields (update_from ev ?ob) s2 = (sF, Next)" .
    let ?s3 = "sF\<lparr>drivers := (drivers sF)
           (''GV11'' \<mapsto> coverage_codes ev (split_on CHR '':'' w ! 0),
            ''GV12'' \<mapsto> intensity_codes ev (split_on CHR '':'' w ! 1),
            ''GV13'' \<mapsto> weather_codes ev (split_on CHR '':'' w ! 2))\<rparr>"
    have x: "extract_observation ev ?ob s2 = (?s3, Raised KeyError)"
      by (rule extract_stops_at_sky [OF loop h(2,3,4)])
    from loop_facts [OF loop p2] t2 d2
    have wF: "list_all (written ev (tag s) items (drivers sF)) observation_fields"
      and o: "drivers_off (fst ` set observation_fields) s sF"
      by (simp_all add: drivers_off_def)
    have w: "list_all (written ev (tag s) items (drivers ?s3)) observation_fields"
      by (rule written_lines_kept [OF wF]) (simp add: line_not_coded)
    from lift [OF x] w o show ?thesis
      by (simp add: drivers_off_def)
  qed
  have D: "ends_in_handler s s2 ?R \<and>
        list_all (written ev (tag s) items (drivers (fst ?R))) observation_fields \<and>
        drivers (fst ?R) ''GV11'' = Some (coverage_codes ev (split_on CHR '':'' w ! 0)) \<and>
        drivers (fst ?R) ''GV12'' = Some (intensity_codes ev (split_on CHR '':'' w ! 1)) \<and>
        drivers (fst ?R) ''GV13'' = Some (weather_codes ev (split_on CHR '':'' w ! 2)) \<and>
        (case py_float ev v of
           Inl e \<Rightarrow> drivers (fst ?R) ''GV14'' = drivers s ''GV14''
         | Inr r \<Rightarrow> drivers (fst ?R) ''GV14'' = Some r) \<and>
        drivers_off (fst ` set observation_fields \<union> {''GV11'', ''GV12'', ''GV13'', ''GV14''}) s
          (fst ?R)"
    if h: "list_all (present (tag s) items) observation_fields"
      "map_of items ''weatherCoded'' = Some (JStr w)" "3 \<le> length (split_on CHR '':'' w)"
      "map_of items ''sky'' = Some v" "tag s ''precipitation'' = Some pkey"
      "map_of items pkey = None"
  proof -
    from h(1) t2 have p2: "list_all (present (tag s2) items) observation_fields" by simp
    from fields_loop_all [OF p2, of ev] obtain sF where
      loop: "for_each observation_fields (update_from ev ?ob) s2 = (sF, Next)" .
    let ?sW = "sF\<lparr>drivers := (drivers sF)
           (''GV11'' \<mapsto> coverage_codes ev (split_on CHR '':'' w ! 0),
            ''GV12'' \<mapsto> intensity_codes ev (split_on CHR '':'' w ! 1),
            ''GV13'' \<mapsto> weather_codes ev (split_on CHR '':'' w ! 2))\<rparr>"
    let ?s3 = "fst (update_driver ev ''GV14'' v ?sW)"
    from h(5) t2 have pk: "tag s2 ''precipitation'' = Some pkey" by simp
    have x: "extract_observation ev ?ob s2 = (?s3, Raised KeyError)"
      by (rule extract_stops_at_precipitation [OF loop h(2,3,4) pk h(6)])
    from loop_facts [OF loop p2] t2 d2
    have wF: "list_all (written ev (tag s) items (drivers sF)) observation_fields"
      and o: "drivers_off (fst ` set observation_fields) s sF"
      by (simp_all add: drivers_off_def)
    have g14: "drivers sF ''GV14'' = drivers s ''GV14''"
      using o coded_drivers_not_fields(4) by (simp add: drivers_off_def)
    have w: "list_all (written ev (tag s) items (drivers ?s3)) observation_fields"
      by (rule written_lines_kept [OF wF])
         (cases "py_float ev v"; simp add: line_not_coded update_driver_result)
    from lift [OF x] w o g14 show ?thesis
      by (cases "py_float ev v") (simp_all add: drivers_off_def update_driver_result)
  qed
  from A B C D show ?thesis
    by blast
qed

lemma sample_capture:
  "capture_latitude sample_env (JObj [(''ob'', JObj items)])
     (sample_frame\<lparr>requests := requests sample_frame @ [observations_url]\<rparr>) =
   (sample_started, Next)"
  by (simp add: capture_latitude_def expr_def cond_def log_event_def modify_def
      sample_started_def sample_frame_def sample_controller_def controller.defs)

text \<open>
  The sample observation without \<^verbatim>\<open>dewpointF\<close>: the seven lines before the dew point
  run, so the visibility driver holds 10; the heat index driver \<^verbatim>\<open>GV3\<close> is not
  written; the log receives the failure once, after the entry of the location capture.
\<close>

theorem C1_witness:
  "weather_request sample_frame ''observations'' = Inr observations_url \<and>
   sample_http (Some (payload (without ''dewpointF'' sample_ob))) None observations_url =
     Some (payload (without ''dewpointF'' sample_ob)) \<and>
   py_get (payload (without ''dewpointF'' sample_ob)) ''response'' =
     Inr (JObj [(''ob'', JObj (without ''dewpointF'' sample_ob))]) \<and>
   py_get (JObj [(''ob'', JObj (without ''dewpointF'' sample_ob))]) ''ob'' =
     Inr (JObj (without ''dewpointF'' sample_ob)) \<and>
   capture_latitude sample_env (JObj [(''ob'', JObj (without ''dewpointF'' sample_ob))])
     (sample_frame\<lparr>requests := requests sample_frame @ [observations_url]\<rparr>) =
     (sample_started, Next) \<and>
   observation_fields =
     take 7 observation_fields @ (''DEWPT'', ''dewpoint'') # drop 8 observation_fields \<and>
   list_all (present (tag sample_frame) (without ''dewpointF'' sample_ob))
     (take 7 observation_fields) \<and>
   tag sample_frame ''dewpoint'' = Some ''dewpointF'' \<and>
   map_of (without ''dewpointF'' sample_ob) ''dewpointF'' = None \<and>
   ends_in_handler sample_frame sample_started
     (observation_block sample_env
        (sample_http (Some (payload (without ''dewpointF'' sample_ob))) None) sample_frame) \<and>
   logged (fst (observation_block sample_env
        (sample_http (Some (payload (without ''dewpointF'' sample_ob))) None) sample_frame)) =
     [LogError ''No location data in response.'', LogError ''Current observation update failure''] \<and>
   drivers (fst (observation_block sample_env
        (sample_http (Some (payload (without ''dewpointF'' sample_ob))) None) sample_frame))
     ''DISTANC'' = Some 10 \<and>
   drivers (fst (observation_block sample_env
        (sample_http (Some (payload (without ''dewpointF'' sample_ob))) None) sample_frame))
     ''GV3'' = None"
proof -
  let ?items = "without ''dewpointF'' sample_ob"
  let ?http = "sample_http (Some (payload ?items)) None"
  let ?R = "observation_block sample_env ?http sample_frame"
  have h1: "weather_request sample_frame ''observations'' = Inr observations_url"
    by code_simp
  have h2: "?http observations_url = Some (payload ?items)"
    by code_simp
  have h3: "py_get (payload ?items) ''response'' = Inr (JObj [(''ob'', JObj ?items)])"
    by (simp add: payload_def)
  have h4: "py_get (JObj [(''ob'', JObj ?items)]) ''ob'' = Inr (JObj ?items)"
    by simp
  have h5: "capture_latitude sample_env (JObj [(''ob'', JObj ?items)])
     (sample_frame\<lparr>requests := requests sample_frame @ [observations_url]\<rparr>) =
     (sample_started, Next)"
    by (rule sample_capture)
  have a1: "observation_fields =
     take 7 observation_fields @ (''DEWPT'', ''dewpoint'') # drop 8 observation_fields"
    by code_simp
  have a2: "list_all (present (tag sample_frame) ?items) (take 7 observation_fields)"
    by code_simp
  have a3: "tag sample_frame ''dewpoint'' = Some ''dewpointF''"
    by code_simp
  have a4: "map_of ?items ''dewpointF'' = None"
    by code_simp
  from C1_first_absent_key_ends_block [where http = ?http and ev = sample_env
      and pre = "take 7 observation_fields" and driver = "''DEWPT''" and name = "''dewpoint''"
      and post = "drop 8 observation_fields" and key = "''dewpointF''", OF h1 h2 h3 h4 h5]
    a1 a2 a3 a4
  have main: "ends_in_handler sample_frame sample_started ?R"
    "list_all (written sample_env (tag sample_frame) ?items (drivers (fst ?R)))
       (take 7 observation_fields)"
    "drivers_off (fst ` set (take 7 observation_fields)) sample_frame (fst ?R)"
    by blast+
  from main(1) have l: "logged (fst ?R) =
     [LogError ''No location data in response.'', LogError ''Current observation update failure'']"
    by (simp add: ends_in_handler_def sample_started_def)
  have line: "(''DISTANC'', ''visibility'') \<in> set (take 7 observation_fields)"
    by code_simp
  have k: "tag sample_frame ''visibility'' = Some ''visibilityMI''"
    by code_simp
  have v: "map_of ?items ''visibilityMI'' = Some (JNum 10)"
    by code_simp
  from main(2) line have "written sample_env (tag sample_frame) ?items (drivers (fst ?R))
      (''DISTANC'', ''visibility'')"
    unfolding list_all_iff by blast
  with k v have d: "drivers (fst ?R) ''DISTANC'' = Some 10"
    by (simp add: written_def)
  have "''GV3'' \<notin> fst ` set (take 7 observation_fields)"
    by code_simp
  with main(3) have "drivers (fst ?R) ''GV3'' = drivers sample_frame ''GV3''"
    by (simp add: drivers_off_def)
  moreover have "drivers sample_frame ''GV3'' = None"
    by code_simp
  ultimately have g: "drivers (fst ?R) ''GV3'' = None"
    by simp
  from h1 h2 h3 h4 h5 a1 a2 a3 a4 main(1) l d g show ?thesis
    by blast
qed

text \<open>
  The claim as stated fails on that payload: a whole conditions poll leaves the heat
  index driver \<^verbatim>\<open>GV3\<close> and the cloud cover driver \<^verbatim>\<open>GV14\<close> unset although the
  payload carries \<^verbatim>\<open>heatindexF\<close> and \<^verbatim>\<open>sky\<close>; with the full payload \<^verbatim>\<open>GV3\<close>
  is set.
\<close>

theorem C1_counterexample:
  "map_of (without ''dewpointF'' sample_ob) ''heatindexF'' = Some (JNum 71) \<and>
   map_of (without ''dewpointF'' sample_ob) ''sky'' = Some (JNum 40) \<and>
   drivers (conditions_run (Some (payload (without ''dewpointF'' sample_ob))) (Some sample_summary))
     ''GV3'' = None \<and>
   drivers (conditions_run (Some (payload (without ''dewpointF'' sample_ob))) (Some sample_summary))
     ''GV14'' = None \<and>
   drivers (conditions_run (Some (payload sample_ob)) (Some sample_summary)) ''GV3'' = Some 71"
  by code_simp

subsection \<open>A coded weather of fewer than three segments\<close>

lemma extract_stops_in_coded:
  assumes "for_each observation_fields (update_from ev (JObj items)) s = (sF, Next)"
    and "map_of items ''weatherCoded'' = Some (JStr w)"
    and "length (split_on CHR '':'' w) < 3"
  shows "extract_observation ev (JObj items) s =
     (if length (split_on CHR '':'' w) = 1
      then sF\<lparr>drivers := (drivers sF)(''GV11'' \<mapsto> coverage_codes ev (split_on CHR '':'' w ! 0))\<rparr>
      else sF\<lparr>drivers := (drivers sF)(''GV11'' \<mapsto> coverage_codes ev (split_on CHR '':'' w ! 0),
                                       ''GV12'' \<mapsto> intensity_codes ev (split_on CHR '':'' w ! 1))\<rparr>,
      Raised IndexError)"
  by (simp add: extract_observation_def seq_def assms(1) coded_weather_short [OF assms(2,3)])

text \<open>
  Claim C4, as the code has it. The three derived writes are consecutive statements,
  each taking its own segment of the split string. Take a poll whose observation
  request is answered by a payload with the envelope, whose location capture does not
  raise and whose observation carries the keys of the fourteen driver fields. When the
  coded-weather string splits into fewer than three segments, the writes are performed
  up to the first missing segment: the coverage driver \<^verbatim>\<open>GV11\<close> is written, the
  intensity driver \<^verbatim>\<open>GV12\<close> is written when there are two segments, the condition
  driver \<^verbatim>\<open>GV13\<close> is not written. The subscript of the missing segment raises
  \<^verbatim>\<open>IndexError\<close>, which ends the block: the fourteen driver fields read before the
  coded weather have updated, the cloud cover driver \<^verbatim>\<open>GV14\<close> and the local
  \<^verbatim>\<open>precipitation\<close>, which come after it, keep their values, and the handler adds
  one failure to the log.
\<close>

theorem C4_short_code_ends_block:
  assumes "weather_request s ''observations'' = Inr url" and "http url = Some jdata"
    and "py_get jdata ''response'' = Inr response"
    and "py_get response ''ob'' = Inr (JObj items)"
    and "capture_latitude ev response (s\<lparr>requests := requests s @ [url]\<rparr>) = (s2, Next)"
    and "list_all (present (tag s) items) observation_fields"
    and "map_of items ''weatherCoded'' = Some (JStr w)"
    and "length (split_on CHR '':'' w) < 3"
  shows "ends_in_handler s s2 (observation_block ev http s) \<and>
         list_all (written ev (tag s) items (drivers (fst (observation_block ev http s))))
           observation_fields \<and>
         drivers (fst (observation_block ev http s)) ''GV11'' =
           Some (coverage_codes ev (split_on CHR '':'' w ! 0)) \<and>
         (length (split_on CHR '':'' w) = 2 \<longrightarrow>
            drivers (fst (observation_block ev http s)) ''GV12'' =
              Some (intensity_codes ev (split_on CHR '':'' w ! 1))) \<and>
         (length (split_on CHR '':'' w) = 1 \<longrightarrow>
            drivers (fst (observation_block ev http s)) ''GV12'' = drivers s ''GV12'') \<and>
         drivers (fst (observation_block ev http s)) ''GV13'' = drivers s ''GV13'' \<and>
         drivers (fst (observation_block ev http s)) ''GV14'' = drivers s ''GV14''"
proof -
  let ?ob = "JObj items"
  let ?R = "observation_block ev http s"
  let ?segs = "split_on CHR '':'' w"
  have t2: "tag s2 = tag s" and d2: "drivers s2 = drivers s"
    using capture_keeps [OF assms(5)] by simp_all
  from assms(6) t2 have p2: "list_all (present (tag s2) items) observation_fields" by simp
  from fields_loop_all [OF p2, of ev] obtain sF where
    loop: "for_each observation_fields (update_from ev ?ob) s2 = (sF, Next)" .
  let ?s3 = "if length ?segs = 1
      then sF\<lparr>drivers := (drivers sF)(''GV11'' \<mapsto> coverage_codes ev (?segs ! 0))\<rparr>
      else sF\<lparr>drivers := (drivers sF)(''GV11'' \<mapsto> coverage_codes ev (?segs ! 0),
                                       ''GV12'' \<mapsto> intensity_codes ev (?segs ! 1))\<rparr>"
  have x: "extract_observation ev ?ob s2 = (?s3, Raised IndexError)"
    by (rule extract_stops_in_coded [OF loop assms(7,8)])
  have lift: "drivers (fst ?R) = drivers ?s3" "ends_in_handler s s2 ?R"
    using block_handler [where http = http, OF assms(1-5) x] by simp_all
  from loop_facts [OF loop p2] t2 d2
  have wF: "list_all (written ev (tag s) items (drivers sF)) observation_fields"
    and o: "drivers_off (fst ` set observation_fields) s sF"
    by (simp_all add: drivers_off_def)
  have w: "list_all (written ev (tag s) items (drivers ?s3)) observation_fields"
    by (rule written_lines_kept [OF wF]) (simp add: line_not_coded)
  have g: "drivers sF ''GV12'' = drivers s ''GV12''" "drivers sF ''GV13'' = drivers s ''GV13''"
    "drivers sF ''GV14'' = drivers s ''GV14''"
    using o coded_drivers_not_fields by (simp_all add: drivers_off_def)
  have "length ?segs \<noteq> 0"
    using split_on_nonempty [of "CHR '':''" w] by simp
  with assms(8) have n: "length ?segs = 1 \<or> length ?segs = 2"
    by arith
  from n lift w g show ?thesis
    by auto
qed

text \<open>
  The sample observation with the coded weather \<^verbatim>\<open>PT:HVY\<close>: coverage and intensity
  are written, condition and cloud cover are not.
\<close>

theorem C4_witness:
  "weather_request sample_frame ''observations'' = Inr observations_url \<and>
   sample_http (Some (payload (with_value ''weatherCoded'' (JStr ''PT:HVY'') sample_ob))) None
     observations_url =
     Some (payload (with_value ''weatherCoded'' (JStr ''PT:HVY'') sample_ob)) \<and>
   py_get (payload (with_value ''weatherCoded'' (JStr ''PT:HVY'') sample_ob)) ''response'' =
     Inr (JObj [(''ob'', JObj (with_value ''weatherCoded'' (JStr ''PT:HVY'') sample_ob))]) \<and>
   py_get (JObj [(''ob'', JObj (with_value ''weatherCoded'' (JStr ''PT:HVY'') sample_ob))]) ''ob'' =
     Inr (JObj (with_value ''weatherCoded'' (JStr ''PT:HVY'') sample_ob)) \<and>
   capture_latitude sample_env
     (JObj [(''ob'', JObj (with_value ''weatherCoded'' (JStr ''PT:HVY'') sample_ob))])
     (sample_frame\<lparr>requests := requests sample_frame @ [observations_url]\<rparr>) =
     (sample_started, Next) \<and>
   list_all (present (tag sample_frame) (with_value ''weatherCoded'' (JStr ''PT:HVY'') sample_ob))
     observation_fields \<and>
   map_of (with_value ''weatherCoded'' (JStr ''PT:HVY'') sample_ob) ''weatherCoded'' =
     Some (JStr ''PT:HVY'') \<and>
   length (split_on CHR '':'' ''PT:HVY'') = 2 \<and>
   ends_in_handler sample_frame sample_started
     (observation_block sample_env
        (sample_http (Some (payload (with_value ''weatherCoded'' (JStr ''PT:HVY'') sample_ob))) None)
        sample_frame) \<and>
   drivers (fst (observation_block sample_env
        (sample_http (Some (payload (with_value ''weatherCoded'' (JStr ''PT:HVY'') sample_ob))) None)
        sample_frame)) ''GV11'' = Some 1 \<and>
   drivers (fst (observation_block sample_env
        (sample_http (Some (payload (with_value ''weatherCoded'' (JStr ''PT:HVY'') sample_ob))) None)
        sample_frame)) ''GV12'' = Some 2 \<and>
   drivers (fst (observation_block sample_env
        (sample_http (Some (payload (with_value ''weatherCoded'' (JStr ''PT:HVY'') sample_ob))) None)
        sample_frame)) ''GV13'' = None \<and>
   drivers (fst (observation_block sample_env
        (sample_http (Some (payload (with_value ''weatherCoded'' (JStr ''PT:HVY'') sample_ob))) None)
        sample_frame)) ''GV14'' = None"
proof -
  let ?items = "with_value ''weatherCoded'' (JStr ''PT:HVY'') sample_ob"
  let ?http = "sample_http (Some (payload ?items)) None"
  let ?R = "observation_block sample_env ?http sample_frame"
  have h1: "weather_request sample_frame ''observations'' = Inr observations_url"
    by code_simp
  have h2: "?http observations_url = Some (payload ?items)"
    by code_simp
  have h3: "py_get (payload ?items) ''response'' = Inr (JObj [(''ob'', JObj ?items)])"
    by (simp add: payload_def)
  have h4: "py_get (JObj [(''ob'', JObj ?items)]) ''ob'' = Inr (JObj ?items)"
    by simp
  have h5: "capture_latitude sample_env (JObj [(''ob'', JObj ?items)])
     (sample_frame\<lparr>requests := requests sample_frame @ [observations_url]\<rparr>) =
     (sample_started, Next)"
    by (rule sample_capture)
  have h6: "list_all (present (tag sample_frame) ?items) observation_fields"
    by code_simp
  have h7: "map_of ?items ''weatherCoded'' = Some (JStr ''PT:HVY'')"
    by code_simp
  have n: "length (split_on CHR '':'' ''PT:HVY'') = 2"
    by code_simp
  then have h8: "length (split_on CHR '':'' ''PT:HVY'') < 3"
    by simp
  note main = C4_short_code_ends_block [where http = ?http and ev = sample_env,
      OF h1 h2 h3 h4 h5 h6 h7 h8]
  have c: "coverage_codes sample_env (split_on CHR '':'' ''PT:HVY'' ! 0) = 1"
    "intensity_codes sample_env (split_on CHR '':'' ''PT:HVY'' ! 1) = 2"
    by (simp_all add: sample_env_def)
  have d: "drivers sample_frame ''GV13'' = None" "drivers sample_frame ''GV14'' = None"
    by code_simp+
  from main n c d have r: "ends_in_handler sample_frame sample_started ?R"
    "drivers (fst ?R) ''GV11'' = Some 1" "drivers (fst ?R) ''GV12'' = Some 2"
    "drivers (fst ?R) ''GV13'' = None" "drivers (fst ?R) ''GV14'' = None"
    by simp_all
  from h1 h2 h3 h4 h5 h6 h7 n r show ?thesis
    by blast
qed

text \<open>
  The claim as stated fails on that payload: a whole conditions poll writes the
  coverage and intensity drivers, and leaves the cloud cover driver unset although the
  payload carries \<^verbatim>\<open>sky\<close>.
\<close>

theorem C4_counterexample:
  "split_on CHR '':'' ''PT:HVY'' = [''PT'', ''HVY''] \<and>
   drivers (conditions_run (Some (payload (with_value ''weatherCoded'' (JStr ''PT:HVY'') sample_ob)))
      (Some sample_summary)) ''GV11'' = Some 1 \<and>
   drivers (conditions_run (Some (payload (with_value ''weatherCoded'' (JStr ''PT:HVY'') sample_ob)))
      (Some sample_summary)) ''GV12'' = Some 2 \<and>
   map_of (with_value ''weatherCoded'' (JStr ''PT:HVY'') sample_ob) ''sky'' = Some (JNum 40) \<and>
   drivers (conditions_run (Some (payload (with_value ''weatherCoded'' (JStr ''PT:HVY'') sample_ob)))
      (Some sample_summary)) ''GV14'' = None"
  by code_simp

subsection \<open>Aggregation of the three-hour records in the legacy controller\<close>


end
